theory Spec2Isabelle
  imports Complex_Main "HOL-Library.Sublist"
begin

section \<open>Strings\<close>

text \<open>
  A Python string is a sequence of code points. The model takes the code points below
  256 (ASCII and Latin-1), which is what the eight-bit \<open>char\<close> holds: \<open>of_char c\<close> is
  the code point of \<open>c\<close>. On these, \<open>upper\<close>, \<open>lower\<close>, \<open>isdigit\<close> and \<open>strip\<close>
  follow Python's tables.
\<close>

text \<open>
  \<open>str.upper()\<close> on one character: the letters a to z and the accented Latin-1 letters
  go to their capitals, the sharp s (223) to "SS". The capitals of the micro sign (181)
  and of the y with diaeresis (255) lie above 255; the model keeps the two letters, which
  like their capitals are no digits, no white space and no letters of a catalog prefix.
\<close>

definition upper_char :: "char \<Rightarrow> string" where
  "upper_char c =
     (let n = (of_char c :: nat)
      in if 97 \<le> n \<and> n \<le> 122 then [char_of (n - 32)]
         else if n = 223 then ''SS''
         else if (224 \<le> n \<and> n \<le> 246) \<or> (248 \<le> n \<and> n \<le> 254) then [char_of (n - 32)]
         else [c])"

definition upper :: "string \<Rightarrow> string" where
  "upper s = concat (map upper_char s)"

text \<open>\<open>str.lower()\<close>: the letters A to Z and the accented Latin-1 capitals go to their
  small letters.\<close>

definition lower_char :: "char \<Rightarrow> char" where
  "lower_char c =
     (let n = (of_char c :: nat)
      in if (65 \<le> n \<and> n \<le> 90) \<or> (192 \<le> n \<and> n \<le> 214) \<or> (216 \<le> n \<and> n \<le> 222)
         then char_of (n + 32) else c)"

definition lower :: "string \<Rightarrow> string" where
  "lower s = map lower_char s"

text \<open>The digits of \<open>str.isdigit()\<close>: 0 to 9 and the superscripts two, three and one
  (178, 179, 185).\<close>

definition is_digit_char :: "char \<Rightarrow> bool" where
  "is_digit_char c =
     (let n = (of_char c :: nat) in (48 \<le> n \<and> n \<le> 57) \<or> n = 178 \<or> n = 179 \<or> n = 185)"

text \<open>\<open>str.isdigit()\<close>: false on the empty string.\<close>

definition isdigit :: "string \<Rightarrow> bool" where
  "isdigit s = (s \<noteq> [] \<and> list_all is_digit_char s)"

text \<open>White space as \<open>str.strip()\<close> sees it: tab to carriage return, the four
  separators 28 to 31, the blank, the next-line character (133) and the no-break
  space (160).\<close>

definition is_space_char :: "char \<Rightarrow> bool" where
  "is_space_char c =
     (let n = (of_char c :: nat)
      in (9 \<le> n \<and> n \<le> 13) \<or> (28 \<le> n \<and> n \<le> 32) \<or> n = 133 \<or> n = 160)"

definition strip :: "string \<Rightarrow> string" where
  "strip s = rev (dropWhile is_space_char (rev (dropWhile is_space_char s)))"

text \<open>\<open>sub in s\<close> on strings.\<close>

fun contains :: "string \<Rightarrow> string \<Rightarrow> bool" where
  "contains sub [] = (sub = [])"
| "contains sub (c # cs) = (prefix sub (c # cs) \<or> contains sub cs)"

text \<open>\<open>s.replace(old, "")\<close> for a non-empty \<open>old\<close>: the occurrences are found from
  the left and do not overlap.\<close>

function remove_all :: "string \<Rightarrow> string \<Rightarrow> string" where
  "remove_all old [] = []"
| "remove_all old (c # cs) =
     (if old \<noteq> [] \<and> prefix old (c # cs) then remove_all old (drop (length old) (c # cs))
      else c # remove_all old cs)"
  by pat_completeness auto
termination
  by (relation "measure (\<lambda>(old, s). length s)") (auto simp: neq_Nil_conv)

text \<open>\<open>str(n)\<close> for a Python integer.\<close>

definition digit_char :: "nat \<Rightarrow> char" where
  "digit_char d = ''0123456789'' ! d"

text \<open>The digits of \<open>n\<close>; the flag says whether \<open>n\<close> is below ten, so that the
  recursion is decided by the flag alone.\<close>

function digits :: "bool \<Rightarrow> nat \<Rightarrow> string" where
  "digits True n = [digit_char n]"
| "digits False n = digits (n div 10 < 10) (n div 10) @ [digit_char (n mod 10)]"
  by pat_completeness auto
termination
  by (relation "measure (\<lambda>(single, n). if single then 0 else Suc n)") auto

definition str_nat :: "nat \<Rightarrow> string" where
  "str_nat n = digits (n < 10) n"

definition str_int :: "int \<Rightarrow> string" where
  "str_int i = (if i < 0 then CHR ''-'' # str_nat (nat (- i)) else str_nat (nat i))"

section \<open>Exceptions and observable effects\<close>

text \<open>
  Every exception of the model is an instance of Python's \<open>Exception\<close>, which is what
  the handlers of the program catch. \<open>str_exn\<close> is the text that an f-string shows;
  for a KeyError it is the key between single quotes.
\<close>

datatype exn = KeyError string | ValueError string | OtherError string

fun str_exn :: "exn \<Rightarrow> string" where
  "str_exn (KeyError k) = CHR 0x27 # k @ [CHR 0x27]"
| "str_exn (ValueError m) = m"
| "str_exn (OtherError m) = m"

text \<open>The status line of the pipeline shows one of these messages.\<close>

datatype status_msg =
    Starting nat
  | Downloading nat nat
  | Stitching
  | Binning
  | Searching
  | Folding

text \<open>The three figures that the pipeline draws.\<close>

datatype figure = CleanedPlot | PeriodogramPlot | FoldedPlot

text \<open>
  What a run does that can be seen from outside, in order: the Streamlit calls and the
  requests sent to the remote services.
\<close>

datatype ui_event =
    Toast string
  | Warning string
  | SidebarWarning string
  | Info string
  | Error string
  | Write string
  | SuccessPeriod real
  | Subheader string
  | Pyplot figure
  | StatusInfo status_msg
  | StatusSuccess
  | StatusEmpty
  | ProgressSet nat nat
  | ProgressEmpty
  | Sleep
  | ReadCsv string "char option"
  | QueryCriteria int
  | SearchLightcurve string "(string list \<times> string list) option"
  | Download nat

section \<open>Data frames\<close>

text \<open>
  A cell holds an integer, a string, a missing value, or any other scalar (a float),
  which is carried by its printed form.
\<close>

datatype cell = IntV int | StrV string | NullV | OtherV string

fun astype_str :: "cell \<Rightarrow> string" where
  "astype_str (IntV i) = str_int i"
| "astype_str (StrV s) = s"
| "astype_str NullV = ''nan''"
| "astype_str (OtherV s) = s"

text \<open>
  A frame is its column labels and its rows. A label is looked up at its first place;
  \<open>read_csv\<close> makes the labels of a frame distinct. A row shorter than the label list
  is missing its last cells.
\<close>

record dataframe =
  columns :: "string list"
  rows :: "cell list list"

definition DataFrame :: dataframe where
  "DataFrame = \<lparr>columns = [], rows = []\<rparr>"

fun index_of :: "string \<Rightarrow> string list \<Rightarrow> nat option" where
  "index_of c [] = None"
| "index_of c (x # xs) = (if x = c then Some 0 else map_option Suc (index_of c xs))"

definition cell_at :: "cell list \<Rightarrow> nat \<Rightarrow> cell" where
  "cell_at r i = (if i < length r then r ! i else NullV)"

definition len :: "dataframe \<Rightarrow> nat" where
  "len df = length (rows df)"

definition empty_df :: "dataframe \<Rightarrow> bool" where
  "empty_df df = (rows df = [] \<or> columns df = [])"

text \<open>\<open>df[c]\<close>: the column, or KeyError.\<close>

definition get_column :: "dataframe \<Rightarrow> string \<Rightarrow> exn + cell list" where
  "get_column df c =
     (case index_of c (columns df) of
        None \<Rightarrow> Inl (KeyError c)
      | Some i \<Rightarrow> Inr (map (\<lambda>r. cell_at r i) (rows df)))"

text \<open>The value of row \<open>r\<close> of \<open>df\<close> under the label \<open>c\<close>.\<close>

definition row_value :: "dataframe \<Rightarrow> cell list \<Rightarrow> string \<Rightarrow> cell option" where
  "row_value df r c = map_option (cell_at r) (index_of c (columns df))"

definition isin :: "cell list \<Rightarrow> cell list \<Rightarrow> bool list" where
  "isin col vals = map (\<lambda>v. v \<in> set vals) col"

text \<open>\<open>df[keep]\<close> for a list of booleans, one for each row.\<close>

definition select_rows :: "dataframe \<Rightarrow> bool list \<Rightarrow> dataframe" where
  "select_rows df keep = df\<lparr>rows := map fst (filter snd (zip (rows df) keep))\<rparr>"

text \<open>\<open>df[cols]\<close> for a list of labels.\<close>

definition select_columns :: "dataframe \<Rightarrow> string list \<Rightarrow> exn + dataframe" where
  "select_columns df cols =
     (case filter (\<lambda>c. index_of c (columns df) = None) cols of
        c # _ \<Rightarrow> Inl (KeyError c)
      | [] \<Rightarrow> Inr \<lparr>columns = cols,
                 rows = map (\<lambda>r. map (\<lambda>c. case index_of c (columns df) of
                                              None \<Rightarrow> NullV
                                            | Some i \<Rightarrow> cell_at r i) cols)
                          (rows df)\<rparr>)"

text \<open>\<open>df.rename(columns=m)\<close>.\<close>

definition rename_label :: "(string \<times> string) list \<Rightarrow> string \<Rightarrow> string" where
  "rename_label m c = (case map_of m c of None \<Rightarrow> c | Some c' \<Rightarrow> c')"

definition rename :: "dataframe \<Rightarrow> (string \<times> string) list \<Rightarrow> dataframe" where
  "rename df m = df\<lparr>columns := map (rename_label m) (columns df)\<rparr>"

text \<open>\<open>df[c] = vals\<close>: the column is replaced, or added when the label is new.\<close>

definition set_column :: "dataframe \<Rightarrow> string \<Rightarrow> cell list \<Rightarrow> dataframe" where
  "set_column df c vals =
     (case index_of c (columns df) of
        Some i \<Rightarrow> df\<lparr>rows := map (\<lambda>(r, v). r[i := v]) (zip (rows df) vals)\<rparr>
      | None \<Rightarrow> df\<lparr>columns := columns df @ [c],
                    rows := map (\<lambda>(r, v). r @ [v]) (zip (rows df) vals)\<rparr>)"

text \<open>
  \<open>df.sample(n=n)\<close> draws \<open>n\<close> rows without replacement. The random choices are an
  argument: each number picks one of the rows that are left.
\<close>

fun draw :: "nat \<Rightarrow> nat list \<Rightarrow> 'a list \<Rightarrow> 'a list" where
  "draw 0 rnd xs = []"
| "draw (Suc n) rnd xs =
     (if xs = [] then []
      else let i = (case rnd of [] \<Rightarrow> 0 | k # _ \<Rightarrow> k mod length xs)
           in xs ! i # draw n (tl rnd) (take i xs @ drop (Suc i) xs))"

definition sample :: "nat list \<Rightarrow> int \<Rightarrow> dataframe \<Rightarrow> exn + dataframe" where
  "sample rnd n df =
     (if n < 0 then Inl (ValueError ''A negative number of rows requested'')
      else if int (len df) < n then Inl (ValueError ''Cannot take a larger sample than population'')
      else Inr (df\<lparr>rows := draw (nat n) rnd (rows df)\<rparr>))"

section \<open>The catalog client\<close>

text \<open>
  The two remote tables are arguments: \<open>read_csv url comment\<close> is what
  \<open>pd.read_csv\<close> gives for the address (a frame, or the exception it raises), and
  \<open>query_criteria n\<close> is the answer of the star catalog to the query with
  \<open>pagesize=n\<close>, already turned into a frame. The functions return the effects of the
  call together with the frame. Streamlit's cache is left out: the model is a call that
  the cache does not answer.
\<close>

definition toi_url :: string where
  "toi_url = ''https://exofop.ipac.caltech.edu/tess/download_toi.php?sort=toi&output=csv''"

definition koi_url :: string where
  "koi_url = ''https://exoplanetarchive.ipac.caltech.edu/cgi-bin/nstedAPI/nph-nstedAPI?table=cumulative&select=kepid,koi_disposition,koi_period,koi_prad&format=csv''"

text \<open>The choice of lines 80 to 91: address, ID label, ID prefix, disposition label and
  the dispositions looked for; \<open>None\<close> is the early return of the last branch.\<close>

definition catalog_config ::
  "string \<Rightarrow> string \<Rightarrow> (string \<times> string \<times> string \<times> string \<times> string list) option" where
  "catalog_config mission_name disposition_type =
     (if mission_name = ''TESS'' then
        Some (toi_url, ''TIC ID'', ''TIC '', ''TFOPWG Disposition'',
              if disposition_type = ''PLANETS'' then [''CP'', ''PC''] else [''FP''])
      else if mission_name \<in> set [''Kepler'', ''K2''] then
        Some (koi_url, ''kepid'', ''KIC '', ''koi_disposition'',
              if disposition_type = ''PLANETS'' then [''CONFIRMED'', ''CANDIDATE'']
              else [''FALSE POSITIVE''])
      else None)"

definition column_map :: "string \<Rightarrow> string \<Rightarrow> (string \<times> string) list" where
  "column_map id_col disposition_col =
     [(id_col, ''Searchable ID''), (disposition_col, ''Status''),
      (''Period (days)'', ''Orbital Period (days)''), (''koi_period'', ''Orbital Period (days)''),
      (''Planet Radius (R_earth)'', ''Planet Radius (Earths)''),
      (''koi_prad'', ''Planet Radius (Earths)'')]"

text \<open>\<open>prefix + df[c].astype(str)\<close>, written back under the same label.\<close>

definition prefix_ids :: "string \<Rightarrow> dataframe \<Rightarrow> exn + dataframe" where
  "prefix_ids id_prefix df =
     (case get_column df ''Searchable ID'' of
        Inl e \<Rightarrow> Inl e
      | Inr ids \<Rightarrow>
          Inr (set_column df ''Searchable ID'' (map (\<lambda>v. StrV (id_prefix @ astype_str v)) ids)))"

text \<open>Lines 95 to 108: filter by disposition, sample, rename, prefix.\<close>

definition select_targets ::
  "nat list \<Rightarrow> dataframe \<Rightarrow> string \<Rightarrow> string \<Rightarrow> string \<Rightarrow> string list \<Rightarrow> int
     \<Rightarrow> exn + dataframe" where
  "select_targets rnd catalog_df id_col id_prefix disposition_col dispositions_to_find
       num_targets =
     (case get_column catalog_df disposition_col of
        Inl e \<Rightarrow> Inl e
      | Inr dispositions \<Rightarrow>
          (let filtered_df =
                 select_rows catalog_df (isin dispositions (map StrV dispositions_to_find))
           in if empty_df filtered_df then Inr DataFrame
              else
                (case sample rnd (min num_targets (int (len filtered_df))) filtered_df of
                   Inl e \<Rightarrow> Inl e
                 | Inr final_sample \<Rightarrow>
                     (let available_cols =
                            filter (\<lambda>col. col \<in> set (columns final_sample))
                              (map fst (column_map id_col disposition_col))
                      in case select_columns final_sample available_cols of
                           Inl e \<Rightarrow> Inl e
                         | Inr projected \<Rightarrow>
                             prefix_ids id_prefix
                               (rename projected (column_map id_col disposition_col))))))"

text \<open>Line 93.\<close>

definition comment_char :: "string \<Rightarrow> char option" where
  "comment_char url = (if contains ''kepler'' (lower url) then Some CHR ''#'' else None)"

text \<open>The body of the \<open>try\<close> of \<open>fetch_catalog_targets\<close>.\<close>

definition fetch_catalog_targets_try ::
  "(string \<Rightarrow> char option \<Rightarrow> exn + dataframe) \<Rightarrow> nat list \<Rightarrow> string \<Rightarrow> string \<Rightarrow> int
     \<Rightarrow> ui_event list \<times> (exn + dataframe)" where
  "fetch_catalog_targets_try read_csv rnd mission_name disposition_type num_targets =
     (case catalog_config mission_name disposition_type of
        None \<Rightarrow> ([], Inr DataFrame)
      | Some (url, id_col, id_prefix, disposition_col, dispositions_to_find) \<Rightarrow>
          ([ReadCsv url (comment_char url)],
           case read_csv url (comment_char url) of
             Inl e \<Rightarrow> Inl e
           | Inr catalog_df \<Rightarrow>
               select_targets rnd catalog_df id_col id_prefix disposition_col
                 dispositions_to_find num_targets))"

definition fetch_catalog_targets ::
  "(string \<Rightarrow> char option \<Rightarrow> exn + dataframe) \<Rightarrow> nat list \<Rightarrow> string \<Rightarrow> string \<Rightarrow> int
     \<Rightarrow> ui_event list \<times> dataframe" where
  "fetch_catalog_targets read_csv rnd mission_name disposition_type num_targets =
     (case fetch_catalog_targets_try read_csv rnd mission_name disposition_type num_targets of
        (evs, Inr df) \<Rightarrow> (evs, df)
      | (evs, Inl e) \<Rightarrow>
          (evs @ [Warning (''Could not dynamically fetch targets: '' @ str_exn e)], DataFrame))"

text \<open>The display names of line 143 and the display columns of line 147.\<close>

definition display_names :: "(string \<times> string) list" where
  "display_names =
     [(''ID'', ''Searchable ID''), (''Tmag'', ''TESS Magnitude''), (''dst'', ''Distance (pc)'')]"

definition final_columns :: "string list" where
  "final_columns = [''Searchable ID'', ''TESS Magnitude'', ''Distance (pc)'', ''ra'', ''dec'']"

text \<open>Lines 138 to 149 of \<open>fetch_untested_targets\<close>: drop the known IDs, rename,
  prefix, keep the display columns.\<close>

definition untested_rows :: "cell list \<Rightarrow> dataframe \<Rightarrow> exn + dataframe" where
  "untested_rows known_toi_tics tic_sample_df =
     (case get_column tic_sample_df ''ID'' of
        Inl e \<Rightarrow> Inl e
      | Inr ids \<Rightarrow>
          (let untested_mask = map Not (isin ids known_toi_tics);
               untested_df = rename (select_rows tic_sample_df untested_mask) display_names
           in case prefix_ids ''TIC '' untested_df of
                Inl e \<Rightarrow> Inl e
              | Inr untested_df' \<Rightarrow>
                  select_columns untested_df'
                    (filter (\<lambda>col. col \<in> set (columns untested_df')) final_columns)))"

definition fetch_untested_targets_try ::
  "(string \<Rightarrow> char option \<Rightarrow> exn + dataframe) \<Rightarrow> (int \<Rightarrow> exn + dataframe) \<Rightarrow> int
     \<Rightarrow> ui_event list \<times> (exn + dataframe)" where
  "fetch_untested_targets_try read_csv query_criteria num_to_sample =
     (let evs1 = [Toast ''Downloading the list of known planet candidates (TOIs)...'',
                  ReadCsv toi_url None]
      in case read_csv toi_url None of
           Inl e \<Rightarrow> (evs1, Inl e)
         | Inr toi_df \<Rightarrow>
             (case get_column toi_df ''TIC ID'' of
                Inl e \<Rightarrow> (evs1, Inl e)
              | Inr known_toi_tics \<Rightarrow>
                  (let evs2 = evs1 @
                         [Toast ''Fetching a random sample of stars from the TESS Input Catalog...'',
                          QueryCriteria num_to_sample]
                   in case query_criteria num_to_sample of
                        Inl e \<Rightarrow> (evs2, Inl e)
                      | Inr tic_sample_df \<Rightarrow>
                          (evs2, untested_rows known_toi_tics tic_sample_df))))"

definition fetch_untested_targets ::
  "(string \<Rightarrow> char option \<Rightarrow> exn + dataframe) \<Rightarrow> (int \<Rightarrow> exn + dataframe) \<Rightarrow> int
     \<Rightarrow> ui_event list \<times> dataframe" where
  "fetch_untested_targets read_csv query_criteria num_to_sample =
     (case fetch_untested_targets_try read_csv query_criteria num_to_sample of
        (evs, Inr df) \<Rightarrow> (evs, df)
      | (evs, Inl e) \<Rightarrow>
          (evs @ [Warning (''Could not fetch untested targets: '' @ str_exn e)], DataFrame))"

section \<open>The target resolver\<close>

text \<open>Line 186: the text of the input with the catalog prefixes taken out.\<close>

definition search_term :: "string \<Rightarrow> string" where
  "search_term star_id_input =
     strip (remove_all ''EPIC'' (remove_all ''KIC'' (remove_all ''TIC'' (upper star_id_input))))"

text \<open>
  Lines 182 to 200, run when the search button is pressed. \<open>search_lightcurve q None\<close>
  is the archive search without filters, \<open>search_lightcurve q (Some (missions, authors))\<close>
  the search with them. Nothing catches an exception of the search here. The second
  component is the search result that the session keeps (\<open>None\<close> when there is none).
\<close>

definition search_tab ::
  "(string \<Rightarrow> (string list \<times> string list) option \<Rightarrow> exn + 'r list) \<Rightarrow> string \<Rightarrow> string list
     \<Rightarrow> string list \<Rightarrow> ui_event list \<times> (exn + 'r list option)" where
  "search_tab search_lightcurve star_id_input selected_missions selected_authors =
     (if star_id_input = [] then ([Warning ''Please enter a star name.''], Inr None)
      else
        (let is_id_search = isdigit (search_term star_id_input);
             (evs, result) =
               (if is_id_search then
                  ([Info ''Numerical ID detected. Searching all available missions and authors...'',
                    SearchLightcurve star_id_input None],
                   map_sum id Some (search_lightcurve star_id_input None))
                else if selected_missions = [] \<or> selected_authors = [] then
                  ([SidebarWarning
                      ''Please select at least one mission and author for name searches.''],
                   Inr None)
                else
                  ([SearchLightcurve star_id_input (Some (selected_missions, selected_authors))],
                   map_sum id Some
                     (search_lightcurve star_id_input
                        (Some (selected_missions, selected_authors)))))
         in case result of
              Inl e \<Rightarrow> (evs, Inl e)
            | Inr (Some r) \<Rightarrow>
                (if 0 < length r then (evs, Inr (Some r))
                 else (evs @ [Warning ''No data found for the given criteria.''], Inr None))
            | Inr None \<Rightarrow> (evs @ [Warning ''No data found for the given criteria.''], Inr None)))"

text \<open>
  Inputs that name an ID are written with these: the blank characters (blank, tab, line
  feed, carriage return, no-break space), the digits 0 to 9, and the spellings of the
  catalog prefixes, the missing prefix among them.
\<close>

definition blanks :: string where
  "blanks = [CHR '' '', CHR 0x09, CHR 0x0A, CHR 0x0D, CHR 0xA0]"

definition ascii_digits :: string where
  "ascii_digits = ''0123456789''"

definition prefix_spellings :: "string list" where
  "prefix_spellings =
     ['''', ''TIC'', ''tic'', ''Tic'', ''KIC'', ''kic'', ''Kic'', ''EPIC'', ''epic'', ''Epic'']"

section \<open>The light-curve pipeline\<close>

text \<open>
  A light curve is its list of cadences. Times and fluxes are real numbers, and a flux
  that is NaN is \<open>None\<close>.
\<close>

record cadence =
  time :: real
  flux :: "real option"
  flux_err :: "real option"

type_synonym lightcurve = "cadence list"

text \<open>\<open>lc.remove_nans()\<close> drops the cadences whose flux is NaN.\<close>

definition remove_nans :: "lightcurve \<Rightarrow> lightcurve" where
  "remove_nans lc = filter (\<lambda>c. flux c \<noteq> None) lc"

record periodogram =
  period_at_max_power :: real
  transit_time_at_max_power :: real

text \<open>
  The operations of the light-curve library that the pipeline calls. Each one returns
  its value or the exception that it raises.
\<close>

record lightkurve =
  normalize :: "lightcurve \<Rightarrow> exn + lightcurve"
  stitch :: "lightcurve list \<Rightarrow> exn + lightcurve"
  bin :: "lightcurve \<Rightarrow> exn + lightcurve"
  flatten :: "lightcurve \<Rightarrow> exn + lightcurve"
  remove_outliers :: "lightcurve \<Rightarrow> exn + lightcurve"
  plot_lightcurve :: "lightcurve \<Rightarrow> exn + unit"
  to_periodogram :: "lightcurve \<Rightarrow> exn + periodogram"
  plot_periodogram :: "periodogram \<Rightarrow> exn + unit"
  fold :: "lightcurve \<Rightarrow> real \<Rightarrow> real \<Rightarrow> exn + lightcurve"

text \<open>A computation that shows events and then returns a value or raises.\<close>

type_synonym 'a run = "ui_event list \<times> (exn + 'a)"

definition emit :: "ui_event list \<Rightarrow> unit run" where
  "emit evs = (evs, Inr ())"

definition call :: "exn + 'a \<Rightarrow> 'a run" where
  "call r = ([], r)"

definition seq :: "'a run \<Rightarrow> ('a \<Rightarrow> 'b run) \<Rightarrow> 'b run" where
  "seq m f =
     (case m of
        (evs, Inl e) \<Rightarrow> (evs, Inl e)
      | (evs, Inr a) \<Rightarrow> (case f a of (evs', r) \<Rightarrow> (evs @ evs', r)))"

definition skip_notice :: "nat \<Rightarrow> string" where
  "skip_notice i = ''Skipping empty or invalid data for file '' @ str_nat (i + 1) @ ''.''"

text \<open>
  One round of the loop of lines 32 to 41, for the item at index \<open>i\<close>. An item is what
  its download gives: a light curve, \<open>None\<close>, or an exception. The round returns the
  normalized light curve that it appends, if any.
\<close>

definition download_step ::
  "lightkurve \<Rightarrow> nat \<Rightarrow> nat \<Rightarrow> exn + lightcurve option \<Rightarrow> lightcurve option run" where
  "download_step lib total_files i item =
     seq (emit [StatusInfo (Downloading (i + 1) total_files), Download i]) (\<lambda>_.
     seq (call item) (\<lambda>lc.
     seq (case lc of
            Some lc' \<Rightarrow>
              (if 0 < length (remove_nans lc') then
                 seq (call (normalize lib lc')) (\<lambda>normalized_lc. ([], Inr (Some normalized_lc)))
               else seq (emit [Write (skip_notice i)]) (\<lambda>_. ([], Inr None)))
          | None \<Rightarrow> seq (emit [Write (skip_notice i)]) (\<lambda>_. ([], Inr None))) (\<lambda>kept.
     seq (emit [ProgressSet (i + 1) total_files]) (\<lambda>_. ([], Inr kept)))))"

fun download_loop ::
  "lightkurve \<Rightarrow> nat \<Rightarrow> nat \<Rightarrow> lightcurve list \<Rightarrow> (exn + lightcurve option) list
     \<Rightarrow> lightcurve list run" where
  "download_loop lib total_files i processed_light_curves [] = ([], Inr processed_light_curves)"
| "download_loop lib total_files i processed_light_curves (item # items) =
     (case download_step lib total_files i item of
        (evs, Inl e) \<Rightarrow> (evs, Inl e)
      | (evs, Inr kept) \<Rightarrow>
          (case download_loop lib total_files (i + 1)
                  (processed_light_curves @ (case kept of None \<Rightarrow> [] | Some lc \<Rightarrow> [lc])) items of
             (evs', r) \<Rightarrow> (evs @ evs', r)))"

text \<open>Lines 47 and 48: stitch the collection and drop the NaN fluxes.\<close>

definition stitched_series ::
  "(lightcurve list \<Rightarrow> exn + lightcurve) \<Rightarrow> lightcurve list \<Rightarrow> exn + lightcurve" where
  "stitched_series stitch_fn processed_light_curves =
     (case stitch_fn processed_light_curves of
        Inl e \<Rightarrow> Inl e
      | Inr lc \<Rightarrow> Inr (remove_nans lc))"

text \<open>Lines 46 to 67: the stages after the download.\<close>

definition analyse :: "lightkurve \<Rightarrow> lightcurve list \<Rightarrow> unit run" where
  "analyse lib processed_light_curves =
     seq (emit [StatusInfo Stitching]) (\<lambda>_.
     seq (call (stitched_series (stitch lib) processed_light_curves)) (\<lambda>lc.
     seq (emit [Sleep, StatusInfo Binning, ProgressEmpty]) (\<lambda>_.
     seq (call (bin lib lc)) (\<lambda>binned_lc.
     seq (call (flatten lib binned_lc)) (\<lambda>flat_lc.
     seq (call (remove_outliers lib flat_lc)) (\<lambda>clean_lc.
     seq (emit [Subheader ''Cleaned & Flattened Light Curve'']) (\<lambda>_.
     seq (call (plot_lightcurve lib clean_lc)) (\<lambda>_.
     seq (emit [Pyplot CleanedPlot, StatusInfo Searching]) (\<lambda>_.
     seq (call (to_periodogram lib clean_lc)) (\<lambda>pg.
     seq (emit [SuccessPeriod (period_at_max_power pg),
                Subheader ''Finding a Repeating Signal (Periodogram)'']) (\<lambda>_.
     seq (call (plot_periodogram lib pg)) (\<lambda>_.
     seq (emit [Pyplot PeriodogramPlot, StatusInfo Folding]) (\<lambda>_.
     seq (call (fold lib clean_lc (period_at_max_power pg) (transit_time_at_max_power pg)))
       (\<lambda>folded_lc.
     seq (emit [Subheader ''Folded Light Curve: The Final Proof'']) (\<lambda>_.
     seq (call (plot_lightcurve lib folded_lc)) (\<lambda>_.
     emit [Pyplot FoldedPlot, StatusSuccess]))))))))))))))))"

text \<open>The body of the \<open>try\<close>, lines 28 to 67.\<close>

definition process_selected_data_try ::
  "lightkurve \<Rightarrow> (exn + lightcurve option) list \<Rightarrow> unit run" where
  "process_selected_data_try lib selected_items =
     (let total_files = length selected_items
      in seq (emit [StatusInfo (Starting total_files), ProgressSet 0 1]) (\<lambda>_.
         seq (download_loop lib total_files 0 [] selected_items) (\<lambda>processed_light_curves.
         if processed_light_curves = [] then
           emit [Error ''Could not process any of the selected light curve data.'',
                 StatusEmpty, ProgressEmpty]
         else analyse lib processed_light_curves)))"

text \<open>
  The whole function: the handler of line 68 turns an exception of the body into one
  error message and empties the two placeholders. The function gives nothing back, so
  its outcome is the list of its effects.
\<close>

definition process_selected_data ::
  "lightkurve \<Rightarrow> (exn + lightcurve option) list \<Rightarrow> ui_event list" where
  "process_selected_data lib selected_items =
     (case process_selected_data_try lib selected_items of
        (evs, Inr _) \<Rightarrow> evs
      | (evs, Inl e) \<Rightarrow>
          evs @ [Error (''An error occurred during analysis: '' @ str_exn e),
                 StatusEmpty, ProgressEmpty])"

text \<open>The results of a run that are on the page: its figures and the period found.\<close>

fun is_result :: "ui_event \<Rightarrow> bool" where
  "is_result (Pyplot fig) = True"
| "is_result (SuccessPeriod p) = True"
| "is_result ev = False"

definition shown_results :: "ui_event list \<Rightarrow> ui_event list" where
  "shown_results evs = filter is_result evs"

text \<open>The effects of a round of the loop that skips its item.\<close>

definition skipped_round :: "nat \<Rightarrow> nat \<Rightarrow> ui_event list" where
  "skipped_round total_files i =
     [StatusInfo (Downloading (i + 1) total_files), Download i, Write (skip_notice i),
      ProgressSet (i + 1) total_files]"

text \<open>
  The library's own \<open>stitch\<close>: it normalizes each member of the collection again and
  stacks the results in the order of the collection. The rescaling of the fluxes is the
  argument \<open>scale\<close>, which gets the light curve and one of its fluxes or flux errors;
  the times stay.
\<close>

definition normalize_flux ::
  "(lightcurve \<Rightarrow> real option \<Rightarrow> real option) \<Rightarrow> lightcurve \<Rightarrow> lightcurve" where
  "normalize_flux scale lc =
     map (\<lambda>c. c\<lparr>flux := scale lc (flux c), flux_err := scale lc (flux_err c)\<rparr>) lc"

definition vstack_normalized ::
  "(lightcurve \<Rightarrow> real option \<Rightarrow> real option) \<Rightarrow> lightcurve list \<Rightarrow> exn + lightcurve" where
  "vstack_normalized scale lcs = Inr (concat (map (normalize_flux scale) lcs))"

text \<open>
  Modelled from the spec: the fold of the light-curve library, called on line 64 as
  \<open>clean_lc.fold(period, epoch_time)\<close>; its code is not among the sources. The spec
  says that the folded series is the cleaned series "with timestamps mapped modulo the
  detected period and shifted by the detected epoch". \<open>phase\<close> is that time: the time
  counted from the epoch, less the whole periods in it. The arithmetic is that of the
  real numbers, of which the floating-point numbers of the program are approximations.
\<close>

definition phase :: "real \<Rightarrow> real \<Rightarrow> real \<Rightarrow> real" where
  "phase period epoch_time t =
     (t - epoch_time) - period * of_int \<lfloor>(t - epoch_time) / period\<rfloor>"

definition fold_series :: "real \<Rightarrow> real \<Rightarrow> lightcurve \<Rightarrow> lightcurve" where
  "fold_series period epoch_time lc =
     map (\<lambda>c. c\<lparr>time := phase period epoch_time (time c)\<rparr>) lc"

text \<open>The labels of the column map that do not depend on the mission.\<close>

definition other_keys :: "string list" where
  "other_keys = [''Period (days)'', ''koi_period'', ''Planet Radius (R_earth)'', ''koi_prad'']"

section \<open>Example inputs\<close>

text \<open>A small table of the transiting-object catalog, the sample that the planets query
  draws from it, a source that is down, and an answer of the star catalog.\<close>

definition toi_table :: dataframe where
  "toi_table =
     \<lparr>columns = [''TOI'', ''TIC ID'', ''TFOPWG Disposition'', ''Period (days)''],
      rows = [[OtherV ''101.01'', IntV 231663901, StrV ''CP'', OtherV ''1.43''],
              [OtherV ''102.01'', IntV 149603524, StrV ''FP'', OtherV ''4.41''],
              [OtherV ''103.01'', IntV 336732616, StrV ''PC'', OtherV ''3.55'']]\<rparr>"

definition planets_sample :: dataframe where
  "planets_sample =
     \<lparr>columns = [''Searchable ID'', ''Status'', ''Orbital Period (days)''],
      rows = [[StrV ''TIC 231663901'', StrV ''CP'', OtherV ''1.43''],
              [StrV ''TIC 336732616'', StrV ''PC'', OtherV ''3.55'']]\<rparr>"

definition read_toi :: "string \<Rightarrow> char option \<Rightarrow> exn + dataframe" where
  "read_toi url comment = Inr toi_table"

definition read_unavailable :: "string \<Rightarrow> char option \<Rightarrow> exn + dataframe" where
  "read_unavailable url comment = Inl (OtherError ''HTTP Error 503: Service Unavailable'')"

definition fp_table :: dataframe where
  "fp_table =
     \<lparr>columns = [''TOI'', ''TIC ID'', ''TFOPWG Disposition'', ''Period (days)''],
      rows = [[OtherV ''102.01'', IntV 149603524, StrV ''FP'', OtherV ''4.41'']]\<rparr>"

definition read_fp :: "string \<Rightarrow> char option \<Rightarrow> exn + dataframe" where
  "read_fp url comment = Inr fp_table"

definition tic_table :: dataframe where
  "tic_table =
     \<lparr>columns = [''ID'', ''ra'', ''dec'', ''Tmag'', ''dst''],
      rows = [[StrV ''231663901'', OtherV ''82.1'', OtherV ''-80.4'', OtherV ''5.1'', OtherV ''18.3''],
              [StrV ''38846515'', OtherV ''63.3'', OtherV ''-69.2'', OtherV ''9.8'', OtherV ''94.0'']]\<rparr>"

definition tic_answer :: "int \<Rightarrow> exn + dataframe" where
  "tic_answer pagesize = Inr tic_table"

definition untested_sample :: dataframe where
  "untested_sample =
     \<lparr>columns = [''Searchable ID'', ''TESS Magnitude'', ''Distance (pc)'', ''ra'', ''dec''],
      rows = [[StrV ''TIC 231663901'', OtherV ''5.1'', OtherV ''18.3'', OtherV ''82.1'', OtherV ''-80.4''],
              [StrV ''TIC 38846515'', OtherV ''9.8'', OtherV ''94.0'', OtherV ''63.3'', OtherV ''-69.2'']]\<rparr>"

definition untested_events :: "int \<Rightarrow> ui_event list" where
  "untested_events n =
     [Toast ''Downloading the list of known planet candidates (TOIs)...'',
      ReadCsv toi_url None,
      Toast ''Fetching a random sample of stars from the TESS Input Catalog...'',
      QueryCriteria n]"

text \<open>An archive that has two data products for every query.\<close>

definition archive :: "string \<Rightarrow> (string list \<times> string list) option \<Rightarrow> exn + nat list" where
  "archive query filters = Inr [0, 1]"

text \<open>A scaling that leaves a flux as it is, which is what dividing by a median of 1
  does, and a library whose periodogram fails while all other operations succeed.\<close>

definition same_flux :: "lightcurve \<Rightarrow> real option \<Rightarrow> real option" where
  "same_flux lc f = f"

definition bls_error :: exn where
  "bls_error = ValueError ''The maximum transit duration must be shorter than the minimum period''"

definition periodogram_fails :: lightkurve where
  "periodogram_fails =
     \<lparr>normalize = (\<lambda>lc. Inr (normalize_flux same_flux lc)),
      stitch = vstack_normalized same_flux,
      bin = Inr,
      flatten = Inr,
      remove_outliers = Inr,
      plot_lightcurve = (\<lambda>lc. Inr ()),
      to_periodogram = (\<lambda>lc. Inl bls_error),
      plot_periodogram = (\<lambda>pg. Inr ()),
      fold = (\<lambda>lc period epoch_time. Inr lc)\<rparr>"

text \<open>Cadences with flux 1 at days 1, 2 and 3, and one whose flux is NaN.\<close>

definition day1 :: cadence where
  "day1 = \<lparr>time = 1, flux = Some 1, flux_err = Some 0\<rparr>"

definition day2 :: cadence where
  "day2 = \<lparr>time = 2, flux = Some 1, flux_err = Some 0\<rparr>"

definition day3 :: cadence where
  "day3 = \<lparr>time = 3, flux = Some 1, flux_err = Some 0\<rparr>"

definition nan_cadence :: cadence where
  "nan_cadence = \<lparr>time = 2, flux = None, flux_err = None\<rparr>"

text \<open>One item that downloads as a light curve; two items without valid data; a light
  curve of three days; two segments given with the later one first; two segments in the
  order of time.\<close>

definition one_segment :: "(exn + lightcurve option) list" where
  "one_segment = [Inr (Some [day1, day2])]"

definition no_valid_data :: "(exn + lightcurve option) list" where
  "no_valid_data = [Inr None, Inr (Some [nan_cadence])]"

definition three_days :: lightcurve where
  "three_days = [day1, day2, day3]"

definition later_first :: "lightcurve list" where
  "later_first = [[day2, day3], [day1]]"

definition in_time_order :: "lightcurve list" where
  "in_time_order = [[day1, nan_cadence], [day2, day3]]"

text \<open>The effects of the run on \<open>one_segment\<close> up to the failure of the periodogram.\<close>

definition search_failed_events :: "ui_event list" where
  "search_failed_events =
     [StatusInfo (Starting 1), ProgressSet 0 1, StatusInfo (Downloading 1 1), Download 0,
      ProgressSet 1 1, StatusInfo Stitching, Sleep, StatusInfo Binning, ProgressEmpty,
      Subheader ''Cleaned & Flattened Light Curve'', Pyplot CleanedPlot, StatusInfo Searching]"

section \<open>Properties of the frame operations\<close>

lemma draw_subset: "set (draw n rnd xs) \<subseteq> set xs"
proof (induction n arbitrary: rnd xs)
  case 0
  then show ?case by simp
next
  case (Suc n)
  show ?case
  proof (cases "xs = []")
    case True
    then show ?thesis by simp
  next
    case False
    define i where "i = (case rnd of [] \<Rightarrow> 0 | k # _ \<Rightarrow> k mod length xs)"
    have i: "i < length xs" using False by (auto simp: i_def split: list.splits)
    have "set (take i xs @ drop (Suc i) xs) \<subseteq> set xs"
      by (auto dest: in_set_takeD in_set_dropD)
    with Suc.IH[of "tl rnd" "take i xs @ drop (Suc i) xs"] i False
    show ?thesis by (auto simp: i_def[symmetric] Let_def)
  qed
qed

lemma length_draw: "length (draw n rnd xs) \<le> n"
  by (induction n arbitrary: rnd xs) (auto simp: Let_def)

lemma map_zip_same: "map (\<lambda>(r, v). F r v) (zip xs (map G xs)) = map (\<lambda>r. F r (G r)) xs"
  by (induction xs) auto

lemma filter_zip_same: "map fst (filter snd (zip xs (map P xs))) = filter P xs"
  by (induction xs) auto

lemma index_of_None: "index_of c xs = None \<longleftrightarrow> c \<notin> set xs"
  by (induction xs) auto

lemma index_of_Some_mem: "index_of c xs = Some i \<Longrightarrow> c \<in> set xs"
  using index_of_None[of c xs] by auto

lemma other_keys_renamed:
  assumes "id_col \<notin> set other_keys" and "dcol \<notin> set other_keys" and "c \<in> set other_keys"
  shows "rename_label (column_map id_col dcol) c \<in>
           {''Orbital Period (days)'', ''Planet Radius (Earths)''}"
proof -
  from assms(3) have "c = ''Period (days)'' \<or> c = ''koi_period'' \<or>
      c = ''Planet Radius (R_earth)'' \<or> c = ''koi_prad''"
    by (simp add: other_keys_def)
  moreover have "id_col \<noteq> c" "dcol \<noteq> c" using assms by auto
  ultimately show ?thesis
    by (auto simp: column_map_def rename_label_def)
qed

lemma select_columns_ok:
  assumes "set cs \<subseteq> set (columns df)"
  shows "select_columns df cs =
           Inr \<lparr>columns = cs,
                rows = map (\<lambda>r. map (\<lambda>c. case index_of c (columns df) of
                                             None \<Rightarrow> NullV | Some i \<Rightarrow> cell_at r i) cs)
                         (rows df)\<rparr>"
proof -
  have "filter (\<lambda>c. index_of c (columns df) = None) cs = []"
    using assms by (auto simp: filter_empty_conv index_of_None)
  then show ?thesis by (simp add: select_columns_def)
qed

lemma rows_select_rows_isin:
  "rows (select_rows df (isin (map (\<lambda>r. cell_at r j) (rows df)) vals)) =
     filter (\<lambda>r. cell_at r j \<in> set vals) (rows df)"
proof -
  have "isin (map (\<lambda>r. cell_at r j) (rows df)) vals = map (\<lambda>r. cell_at r j \<in> set vals) (rows df)"
    by (simp add: isin_def)
  then show ?thesis by (simp add: select_rows_def filter_zip_same)
qed

lemma prefix_ids_rows:
  assumes "prefix_ids p df = Inr df'"
  shows "\<exists>i. index_of ''Searchable ID'' (columns df) = Some i \<and> columns df' = columns df \<and>
             rows df' = map (\<lambda>r. r[i := StrV (p @ astype_str (cell_at r i))]) (rows df)"
proof (cases "index_of ''Searchable ID'' (columns df)")
  case None
  with assms show ?thesis by (simp add: prefix_ids_def get_column_def)
next
  case (Some i)
  with assms have "df' = df\<lparr>rows := map (\<lambda>(r, v). r[i := v])
      (zip (rows df) (map (\<lambda>v. StrV (p @ astype_str v)) (map (\<lambda>r. cell_at r i) (rows df))))\<rparr>"
    by (auto simp: prefix_ids_def get_column_def set_column_def)
  then have "rows df' = map (\<lambda>(r, v). r[i := v])
      (zip (rows df) (map (\<lambda>r. StrV (p @ astype_str (cell_at r i))) (rows df)))"
    and "columns df' = columns df"
    by (simp_all add: comp_def)
  with Some show ?thesis by (simp add: map_zip_same)
qed

lemma select_targets_rows:
  assumes ok: "select_targets rnd cdf id_col p dcol wanted n = Inr df"
    and ne: "id_col \<noteq> dcol"
    and ik: "id_col \<notin> set other_keys" and dk: "dcol \<notin> set other_keys"
  shows "int (length (rows df)) \<le> max 0 n \<and>
         (\<forall>r\<in>set (rows df).
            (\<exists>s. row_value df r ''Searchable ID'' = Some (StrV (p @ s))) \<and>
            (\<exists>w\<in>set wanted. row_value df r ''Status'' = Some (StrV w)))"
proof -
  from ok obtain j where j: "index_of dcol (columns cdf) = Some j"
    by (cases "index_of dcol (columns cdf)") (auto simp: select_targets_def get_column_def)
  define filtered where
    "filtered = select_rows cdf (isin (map (\<lambda>r. cell_at r j) (rows cdf)) (map StrV wanted))"
  have frows: "rows filtered = filter (\<lambda>r. cell_at r j \<in> StrV ` set wanted) (rows cdf)"
    by (simp add: filtered_def rows_select_rows_isin)
  have fcols: "columns filtered = columns cdf"
    by (simp add: filtered_def select_rows_def)
  show ?thesis
  proof (cases "empty_df filtered")
    case True
    with ok j have "df = DataFrame"
      by (simp add: select_targets_def get_column_def filtered_def Let_def)
    then show ?thesis by (simp add: DataFrame_def)
  next
    case False
    define m where "m = min n (int (len filtered))"
    from ok j False obtain fs where fs: "sample rnd m filtered = Inr fs"
      by (cases "sample rnd m filtered")
         (auto simp: select_targets_def get_column_def filtered_def Let_def m_def)
    then have m0: "0 \<le> m" and fsd: "fs = filtered\<lparr>rows := draw (nat m) rnd (rows filtered)\<rparr>"
      by (auto simp: sample_def split: if_splits)
    have fscols: "columns fs = columns cdf" by (simp add: fsd fcols)
    have fsrows: "set (rows fs) \<subseteq> set (rows filtered)" by (simp add: fsd draw_subset)
    have fslen: "length (rows fs) \<le> nat m" by (simp add: fsd length_draw)
    define avail where
      "avail = filter (\<lambda>c. c \<in> set (columns fs)) (map fst (column_map id_col dcol))"
    define rest where "rest = filter (\<lambda>c. c \<in> set (columns cdf)) other_keys"
    define proj where "proj = (\<lambda>r. map (\<lambda>c. case index_of c (columns fs) of
                                             None \<Rightarrow> NullV | Some i \<Rightarrow> cell_at r i) avail)"
    have sel: "select_columns fs avail = Inr \<lparr>columns = avail, rows = map proj (rows fs)\<rparr>"
      unfolding proj_def by (rule select_columns_ok) (auto simp: avail_def)
    define ren where
      "ren = rename \<lparr>columns = avail, rows = map proj (rows fs)\<rparr> (column_map id_col dcol)"
    from ok j False fs sel have pre: "prefix_ids p ren = Inr df"
      by (simp add: select_targets_def get_column_def filtered_def[symmetric] Let_def
            m_def[symmetric] avail_def[symmetric] ren_def)
    from prefix_ids_rows[OF pre] obtain i where
      i: "index_of ''Searchable ID'' (columns ren) = Some i" and
      dcols: "columns df = columns ren" and
      drows: "rows df = map (\<lambda>r. r[i := StrV (p @ astype_str (cell_at r i))]) (rows ren)"
      by blast
    have dmem: "dcol \<in> set (columns cdf)" using j by (rule index_of_Some_mem)
    have rest_ren: "index_of ''Searchable ID''
        (map (rename_label (column_map id_col dcol)) rest) = None"
    proof -
      have "\<forall>c\<in>set rest. rename_label (column_map id_col dcol) c \<noteq> ''Searchable ID''"
        using other_keys_renamed[OF ik dk] by (fastforce simp: rest_def)
      then show ?thesis by (auto simp: index_of_None)
    qed
    have idmem: "id_col \<in> set (columns cdf)"
    proof (rule ccontr)
      assume "id_col \<notin> set (columns cdf)"
      then have "avail = dcol # rest"
        using dmem by (simp add: avail_def fscols column_map_def rest_def other_keys_def)
      then have "columns ren = ''Status'' # map (rename_label (column_map id_col dcol)) rest"
        using ne by (simp add: ren_def rename_def rename_label_def column_map_def)
      with i rest_ren show False
        by simp
    qed
    then obtain k where k: "index_of id_col (columns cdf) = Some k"
      by (cases "index_of id_col (columns cdf)") (auto simp: index_of_None)
    have av: "avail = id_col # dcol # rest"
      using dmem idmem by (simp add: avail_def fscols column_map_def rest_def other_keys_def)
    then have rcols: "columns ren = ''Searchable ID'' # ''Status'' #
        map (rename_label (column_map id_col dcol)) rest"
      using ne by (simp add: ren_def rename_def rename_label_def column_map_def)
    then have i0: "i = 0" using i by simp
    have rrows: "rows ren = map proj (rows fs)" by (simp add: ren_def rename_def)
    have projr: "\<And>r. \<exists>t. proj r = cell_at r k # cell_at r j # t"
      by (simp add: proj_def av fscols k j)
    have "int (length (rows df)) \<le> max 0 n"
      using fslen m0 by (simp add: drows rrows m_def)
    moreover have "\<forall>r\<in>set (rows df).
            (\<exists>s. row_value df r ''Searchable ID'' = Some (StrV (p @ s))) \<and>
            (\<exists>w\<in>set wanted. row_value df r ''Status'' = Some (StrV w))"
    proof
      fix r' assume "r' \<in> set (rows df)"
      then obtain r where r: "r \<in> set (rows fs)" and
        r': "r' = (proj r)[0 := StrV (p @ astype_str (cell_at (proj r) 0))]"
        by (auto simp: drows rrows i0)
      from projr obtain t where t: "proj r = cell_at r k # cell_at r j # t" by blast
      from r fsrows frows have "cell_at r j \<in> StrV ` set wanted" by auto
      then obtain w where w: "w \<in> set wanted" "cell_at r j = StrV w" by auto
      have "row_value df r' ''Searchable ID'' = Some (StrV (p @ astype_str (cell_at r k)))"
        by (simp add: row_value_def dcols rcols r' t cell_at_def)
      moreover have "row_value df r' ''Status'' = Some (StrV w)"
        using w by (simp add: row_value_def dcols rcols r' t cell_at_def)
      ultimately show "(\<exists>s. row_value df r' ''Searchable ID'' = Some (StrV (p @ s))) \<and>
            (\<exists>w\<in>set wanted. row_value df r' ''Status'' = Some (StrV w))"
        using w by blast
    qed
    ultimately show ?thesis by blast
  qed
qed

section \<open>Properties of the catalog client\<close>

lemma catalog_config_keys:
  assumes "catalog_config m d = Some (url, id_col, p, dcol, wanted)"
  shows "id_col \<noteq> dcol \<and> id_col \<notin> set other_keys \<and> dcol \<notin> set other_keys"
proof -
  from assms have "(id_col = ''TIC ID'' \<and> dcol = ''TFOPWG Disposition'') \<or>
                   (id_col = ''kepid'' \<and> dcol = ''koi_disposition'')"
    by (simp add: catalog_config_def split: if_splits)
  then show ?thesis by (auto simp: other_keys_def)
qed

lemma comment_char_toi: "comment_char toi_url = None"
  by code_simp

lemma comment_char_koi: "comment_char koi_url = None"
  by code_simp

lemma config_tess_planets:
  "catalog_config ''TESS'' ''PLANETS'' =
     Some (toi_url, ''TIC ID'', ''TIC '', ''TFOPWG Disposition'', [''CP'', ''PC''])"
  by (simp add: catalog_config_def)

lemma draw_numeral:
  "draw (numeral k) rnd xs =
     (if xs = [] then []
      else let i = (case rnd of [] \<Rightarrow> 0 | j # _ \<Rightarrow> j mod length xs)
           in xs ! i # draw (pred_numeral k) (tl rnd) (take i xs @ drop (Suc i) xs))"
  by (simp add: numeral_eq_Suc)

lemmas frame_defs = get_column_def isin_def select_rows_def empty_df_def sample_def len_def
  cell_at_def select_columns_def rename_def rename_label_def prefix_ids_def set_column_def
  str_int_def str_nat_def digit_char_def Let_def draw_numeral

lemma select_targets_toi_table:
  "select_targets [] toi_table ''TIC ID'' ''TIC '' ''TFOPWG Disposition'' [''CP'', ''PC''] 25 =
     Inr planets_sample"
  by (simp add: select_targets_def toi_table_def planets_sample_def column_map_def frame_defs)

lemma tess_planets_example:
  "fetch_catalog_targets read_toi [] ''TESS'' ''PLANETS'' 25 =
     ([ReadCsv toi_url None], planets_sample)"
  by (simp add: fetch_catalog_targets_def fetch_catalog_targets_try_def config_tess_planets
        comment_char_toi read_toi_def select_targets_toi_table)

text \<open>
  C10. For a mission name other than TESS, Kepler and K2, \<open>fetch_catalog_targets\<close>
  returns the empty frame at once: no remote table is read and no warning or error is
  shown.
\<close>

theorem fetch_catalog_targets_unknown_mission:
  assumes "mission_name \<notin> {''TESS'', ''Kepler'', ''K2''}"
  shows "fetch_catalog_targets read_csv rnd mission_name disposition_type num_targets =
           ([], DataFrame)"
  using assms
  by (simp add: fetch_catalog_targets_def fetch_catalog_targets_try_def catalog_config_def)

theorem fetch_catalog_targets_unknown_mission_witness:
  "''Gaia'' \<notin> {''TESS'', ''Kepler'', ''K2''} \<and>
   fetch_catalog_targets read_unavailable [] ''Gaia'' ''PLANETS'' 25 = ([], DataFrame)"
proof -
  have h: "''Gaia'' \<notin> {''TESS'', ''Kepler'', ''K2''}" by simp
  from h fetch_catalog_targets_unknown_mission[OF h] show ?thesis by blast
qed

text \<open>
  C2. The frame returned by \<open>fetch_catalog_targets("TESS", "PLANETS", 25)\<close> has at most
  25 rows; in every row the value under "Searchable ID" is a string that starts with
  "TIC " and the value under "Status" is "CP" or "PC". This holds for every table that
  the remote source may give and for every random choice of the sample.
\<close>

theorem fetch_catalog_targets_tess_planets:
  assumes "fetch_catalog_targets read_csv rnd ''TESS'' ''PLANETS'' 25 = (evs, df)"
  shows "length (rows df) \<le> 25 \<and>
         (\<forall>r\<in>set (rows df).
            (\<exists>s. row_value df r ''Searchable ID'' = Some (StrV s) \<and> prefix ''TIC '' s) \<and>
            (row_value df r ''Status'' = Some (StrV ''CP'') \<or>
             row_value df r ''Status'' = Some (StrV ''PC'')))"
proof (cases "snd (fetch_catalog_targets_try read_csv rnd ''TESS'' ''PLANETS'' 25)")
  case (Inl e)
  with assms have "df = DataFrame"
    by (auto simp: fetch_catalog_targets_def split: prod.splits)
  then show ?thesis by (simp add: DataFrame_def)
next
  case (Inr df')
  with assms have df': "df' = df"
    by (auto simp: fetch_catalog_targets_def split: prod.splits)
  note cfg = config_tess_planets
  from Inr df' obtain cdf where
    "select_targets rnd cdf ''TIC ID'' ''TIC '' ''TFOPWG Disposition'' [''CP'', ''PC''] 25 = Inr df"
    by (auto simp: fetch_catalog_targets_try_def cfg split: sum.splits)
  from select_targets_rows[OF this] catalog_config_keys[OF cfg]
  have "int (length (rows df)) \<le> max 0 25" and
    r: "\<forall>r\<in>set (rows df).
            (\<exists>s. row_value df r ''Searchable ID'' = Some (StrV (''TIC '' @ s))) \<and>
            (\<exists>w\<in>set [''CP'', ''PC'']. row_value df r ''Status'' = Some (StrV w))"
    by blast+
  then have "length (rows df) \<le> 25" by simp
  moreover from r have "\<forall>r\<in>set (rows df).
            (\<exists>s. row_value df r ''Searchable ID'' = Some (StrV s) \<and> prefix ''TIC '' s) \<and>
            (row_value df r ''Status'' = Some (StrV ''CP'') \<or>
             row_value df r ''Status'' = Some (StrV ''PC''))"
    by fastforce
  ultimately show ?thesis by blast
qed

theorem fetch_catalog_targets_tess_planets_witness:
  "fetch_catalog_targets read_toi [] ''TESS'' ''PLANETS'' 25 =
     ([ReadCsv toi_url None], planets_sample) \<and>
   length (rows planets_sample) \<le> 25 \<and>
   (\<exists>s. row_value planets_sample [StrV ''TIC 231663901'', StrV ''CP'', OtherV ''1.43'']
          ''Searchable ID'' = Some (StrV s) \<and> prefix ''TIC '' s) \<and>
   (row_value planets_sample [StrV ''TIC 231663901'', StrV ''CP'', OtherV ''1.43'']
      ''Status'' = Some (StrV ''CP'') \<or>
    row_value planets_sample [StrV ''TIC 231663901'', StrV ''CP'', OtherV ''1.43'']
      ''Status'' = Some (StrV ''PC''))"
proof -
  note ex = tess_planets_example
  have mem: "[StrV ''TIC 231663901'', StrV ''CP'', OtherV ''1.43''] \<in> set (rows planets_sample)"
    by (simp add: planets_sample_def)
  from fetch_catalog_targets_tess_planets[OF ex] mem ex show ?thesis
    by blast
qed

lemma select_rows_none:
  assumes "\<forall>b\<in>set keep. \<not> b"
  shows "rows (select_rows df keep) = []"
proof -
  have "filter snd (zip (rows df) keep) = []"
    using assms by (auto simp: filter_empty_conv dest: set_zip_rightD)
  then show ?thesis by (simp add: select_rows_def)
qed

text \<open>
  C6. For a mission that \<open>fetch_catalog_targets\<close> knows: when no row of the remote
  table has one of the dispositions looked for, the function returns the empty frame and
  shows no warning; when reading the table raises, the function shows one warning with
  the text of the exception and returns the empty frame; and when the table lacks the
  disposition column, the KeyError ends in the same way.
\<close>

theorem fetch_catalog_targets_no_rows_or_failure:
  assumes cfg: "catalog_config mission_name disposition_type =
                  Some (url, id_col, id_prefix, disposition_col, wanted)"
  shows "(\<forall>catalog_df dispositions.
            read_csv url (comment_char url) = Inr catalog_df \<and>
            get_column catalog_df disposition_col = Inr dispositions \<and>
            (\<forall>v\<in>set dispositions. v \<notin> set (map StrV wanted)) \<longrightarrow>
            fetch_catalog_targets read_csv rnd mission_name disposition_type num_targets =
              ([ReadCsv url (comment_char url)], DataFrame)) \<and>
         (\<forall>e. read_csv url (comment_char url) = Inl e \<longrightarrow>
            fetch_catalog_targets read_csv rnd mission_name disposition_type num_targets =
              ([ReadCsv url (comment_char url),
                Warning (''Could not dynamically fetch targets: '' @ str_exn e)], DataFrame)) \<and>
         (\<forall>catalog_df.
            read_csv url (comment_char url) = Inr catalog_df \<and>
            disposition_col \<notin> set (columns catalog_df) \<longrightarrow>
            fetch_catalog_targets read_csv rnd mission_name disposition_type num_targets =
              ([ReadCsv url (comment_char url),
                Warning (''Could not dynamically fetch targets: '' @
                         str_exn (KeyError disposition_col))], DataFrame))"
proof (intro conjI allI impI)
  fix catalog_df dispositions
  assume a: "read_csv url (comment_char url) = Inr catalog_df \<and>
            get_column catalog_df disposition_col = Inr dispositions \<and>
            (\<forall>v\<in>set dispositions. v \<notin> set (map StrV wanted))"
  then have "rows (select_rows catalog_df (isin dispositions (map StrV wanted))) = []"
    by (intro select_rows_none) (auto simp: isin_def)
  then have "select_targets rnd catalog_df id_col id_prefix disposition_col wanted num_targets =
               Inr DataFrame"
    using a by (simp add: select_targets_def empty_df_def)
  with a show "fetch_catalog_targets read_csv rnd mission_name disposition_type num_targets =
              ([ReadCsv url (comment_char url)], DataFrame)"
    by (simp add: fetch_catalog_targets_def fetch_catalog_targets_try_def cfg)
next
  fix e
  assume "read_csv url (comment_char url) = Inl e"
  then show "fetch_catalog_targets read_csv rnd mission_name disposition_type num_targets =
              ([ReadCsv url (comment_char url),
                Warning (''Could not dynamically fetch targets: '' @ str_exn e)], DataFrame)"
    by (simp add: fetch_catalog_targets_def fetch_catalog_targets_try_def cfg)
next
  fix catalog_df
  assume a: "read_csv url (comment_char url) = Inr catalog_df \<and>
            disposition_col \<notin> set (columns catalog_df)"
  then have "get_column catalog_df disposition_col = Inl (KeyError disposition_col)"
    by (simp add: get_column_def index_of_None[symmetric])
  then have "select_targets rnd catalog_df id_col id_prefix disposition_col wanted num_targets =
               Inl (KeyError disposition_col)"
    by (simp add: select_targets_def)
  with a show "fetch_catalog_targets read_csv rnd mission_name disposition_type num_targets =
              ([ReadCsv url (comment_char url),
                Warning (''Could not dynamically fetch targets: '' @
                         str_exn (KeyError disposition_col))], DataFrame)"
    by (simp add: fetch_catalog_targets_def fetch_catalog_targets_try_def cfg)
qed

lemma config_kepler_planets:
  "catalog_config ''Kepler'' ''PLANETS'' =
     Some (koi_url, ''kepid'', ''KIC '', ''koi_disposition'', [''CONFIRMED'', ''CANDIDATE''])"
  by (simp add: catalog_config_def)

theorem fetch_catalog_targets_no_rows_or_failure_witness:
  "fetch_catalog_targets read_fp [] ''TESS'' ''PLANETS'' 25 = ([ReadCsv toi_url None], DataFrame) \<and>
   fetch_catalog_targets read_unavailable [] ''TESS'' ''PLANETS'' 25 =
     ([ReadCsv toi_url None,
       Warning ''Could not dynamically fetch targets: HTTP Error 503: Service Unavailable''],
      DataFrame) \<and>
   fetch_catalog_targets read_toi [] ''Kepler'' ''PLANETS'' 25 =
     ([ReadCsv koi_url None,
       Warning (''Could not dynamically fetch targets: '' @ str_exn (KeyError ''koi_disposition''))],
      DataFrame)"
proof -
  have r1: "read_fp toi_url (comment_char toi_url) = Inr fp_table \<and>
            get_column fp_table ''TFOPWG Disposition'' = Inr [StrV ''FP''] \<and>
            (\<forall>v\<in>set [StrV ''FP'']. v \<notin> set (map StrV [''CP'', ''PC'']))"
    by (simp add: read_fp_def fp_table_def get_column_def cell_at_def)
  have r2: "read_unavailable toi_url (comment_char toi_url) =
              Inl (OtherError ''HTTP Error 503: Service Unavailable'')"
    by (simp add: read_unavailable_def)
  have r3: "read_toi koi_url (comment_char koi_url) = Inr toi_table \<and>
            ''koi_disposition'' \<notin> set (columns toi_table)"
    by (simp add: read_toi_def toi_table_def)
  from fetch_catalog_targets_no_rows_or_failure[OF config_tess_planets, of read_fp "[]" 25] r1
  have w1: "fetch_catalog_targets read_fp [] ''TESS'' ''PLANETS'' 25 =
              ([ReadCsv toi_url (comment_char toi_url)], DataFrame)"
    by blast
  from fetch_catalog_targets_no_rows_or_failure[OF config_tess_planets, of read_unavailable "[]" 25] r2
  have w2: "fetch_catalog_targets read_unavailable [] ''TESS'' ''PLANETS'' 25 =
     ([ReadCsv toi_url (comment_char toi_url),
       Warning (''Could not dynamically fetch targets: '' @
                str_exn (OtherError ''HTTP Error 503: Service Unavailable''))], DataFrame)"
    by blast
  from fetch_catalog_targets_no_rows_or_failure[OF config_kepler_planets, of read_toi "[]" 25] r3
  have w3: "fetch_catalog_targets read_toi [] ''Kepler'' ''PLANETS'' 25 =
     ([ReadCsv koi_url (comment_char koi_url),
       Warning (''Could not dynamically fetch targets: '' @ str_exn (KeyError ''koi_disposition''))],
      DataFrame)"
    by blast
  from w1 w2 w3 show ?thesis by (simp add: comment_char_toi comment_char_koi)
qed

lemma known_toi_table:
  "get_column toi_table ''TIC ID'' = Inr [IntV 231663901, IntV 149603524, IntV 336732616]"
  by (simp add: toi_table_def get_column_def cell_at_def)

lemma untested_rows_tic_table:
  "untested_rows [IntV 231663901, IntV 149603524, IntV 336732616] tic_table = Inr untested_sample"
  by (simp add: untested_rows_def tic_table_def untested_sample_def display_names_def
        final_columns_def frame_defs)

lemma fetch_untested_example:
  "fetch_untested_targets read_toi tic_answer n = (untested_events n, untested_sample)"
  by (simp add: fetch_untested_targets_def fetch_untested_targets_try_def read_toi_def
        tic_answer_def known_toi_table untested_rows_tic_table untested_events_def)

text \<open>
  C1. The code does not keep the claim. The star catalog gives its IDs as strings and
  the table of known objects is read with its TIC IDs as integers, so the test of line
  138 finds no ID of the sample among the known ones and drops no row. Here the known
  objects hold TIC 231663901, the sample holds the star with the ID "231663901", and the
  call succeeds with that star in its result, under the ID "TIC 231663901".
\<close>

theorem fetch_untested_targets_returns_known_star:
  "get_column toi_table ''TIC ID'' = Inr [IntV 231663901, IntV 149603524, IntV 336732616] \<and>
   fetch_untested_targets read_toi tic_answer 100 = (untested_events 100, untested_sample) \<and>
   [StrV ''TIC 231663901'', OtherV ''5.1'', OtherV ''18.3'', OtherV ''82.1'', OtherV ''-80.4'']
     \<in> set (rows untested_sample) \<and>
   row_value untested_sample
     [StrV ''TIC 231663901'', OtherV ''5.1'', OtherV ''18.3'', OtherV ''82.1'', OtherV ''-80.4'']
     ''Searchable ID'' = Some (StrV (''TIC '' @ str_int 231663901))"
proof -
  have "[StrV ''TIC 231663901'', OtherV ''5.1'', OtherV ''18.3'', OtherV ''82.1'', OtherV ''-80.4'']
     \<in> set (rows untested_sample)"
    by (simp add: untested_sample_def)
  moreover have "row_value untested_sample
     [StrV ''TIC 231663901'', OtherV ''5.1'', OtherV ''18.3'', OtherV ''82.1'', OtherV ''-80.4'']
     ''Searchable ID'' = Some (StrV (''TIC '' @ str_int 231663901))"
    by (simp add: row_value_def untested_sample_def cell_at_def str_int_def str_nat_def
          digit_char_def)
  ultimately show ?thesis
    using known_toi_table fetch_untested_example[of 100] by (intro conjI)
qed

section \<open>Properties of the target resolver\<close>

lemma search_term_empty: "search_term [] = []"
  by (simp add: search_term_def upper_def strip_def)

lemma isdigit_search_term_nonempty: "isdigit (search_term s) \<Longrightarrow> s \<noteq> []"
  by (auto simp: search_term_empty isdigit_def)

lemma upper_append: "upper (a @ b) = upper a @ upper b"
  by (simp add: upper_def)

lemma blanks_table:
  "list_all (\<lambda>c. upper_char c = [c] \<and> is_space_char c \<and> c \<notin> set ''TKE'') blanks"
  by code_simp

lemma digits_table:
  "list_all (\<lambda>c. upper_char c = [c] \<and> \<not> is_space_char c \<and> is_digit_char c \<and> c \<notin> set ''TKE'')
     ascii_digits"
  by code_simp

lemma spellings_table:
  "list_all (\<lambda>p. upper p \<in> set ['''', ''TIC'', ''KIC'', ''EPIC'']) prefix_spellings"
  by code_simp

lemma upper_fixed:
  assumes "\<forall>c\<in>set s. upper_char c = [c]"
  shows "upper s = s"
  using assms by (induction s) (simp_all add: upper_def)

lemma blank_facts:
  assumes "set ws \<subseteq> set blanks"
  shows "upper ws = ws" and "\<forall>c\<in>set ws. is_space_char c" and "\<forall>c\<in>set ws. c \<notin> set ''TKE''"
proof -
  from blanks_table have t: "\<forall>c\<in>set blanks. upper_char c = [c] \<and> is_space_char c \<and> c \<notin> set ''TKE''"
    by (simp only: list_all_iff)
  with assms show "upper ws = ws" by (intro upper_fixed) blast
  from t assms show "\<forall>c\<in>set ws. is_space_char c" by blast
  from t assms show "\<forall>c\<in>set ws. c \<notin> set ''TKE''" by blast
qed

lemma digit_facts:
  assumes "set d \<subseteq> set ascii_digits"
  shows "upper d = d" and "\<forall>c\<in>set d. \<not> is_space_char c" and "\<forall>c\<in>set d. is_digit_char c"
    and "\<forall>c\<in>set d. c \<notin> set ''TKE''"
proof -
  from digits_table have t: "\<forall>c\<in>set ascii_digits.
      upper_char c = [c] \<and> \<not> is_space_char c \<and> is_digit_char c \<and> c \<notin> set ''TKE''"
    by (simp only: list_all_iff)
  with assms show "upper d = d" by (intro upper_fixed) blast
  from t assms show "\<forall>c\<in>set d. \<not> is_space_char c" by blast
  from t assms show "\<forall>c\<in>set d. is_digit_char c" by blast
  from t assms show "\<forall>c\<in>set d. c \<notin> set ''TKE''" by blast
qed

lemma remove_all_skip:
  assumes "old \<noteq> []" and "hd old \<notin> set xs"
  shows "remove_all old (xs @ ys) = xs @ remove_all old ys"
  using assms
proof (induction xs)
  case Nil
  then show ?case by simp
next
  case (Cons x xs)
  then have "\<not> prefix old (x # xs @ ys)"
    by (cases old) auto
  with Cons show ?case by simp
qed

lemma remove_all_absent:
  assumes "old \<noteq> []" and "hd old \<notin> set xs"
  shows "remove_all old xs = xs"
  using remove_all_skip[OF assms, of "[]"] by simp

lemma remove_all_here:
  assumes "old \<noteq> []"
  shows "remove_all old (old @ ys) = remove_all old ys"
  using assms by (cases old) simp_all

lemma strip_between:
  assumes "\<forall>c\<in>set a. is_space_char c" and "\<forall>c\<in>set b. is_space_char c"
    and "d \<noteq> []" and "\<forall>c\<in>set d. \<not> is_space_char c"
  shows "strip (a @ d @ b) = d"
proof -
  from assms(3) obtain x xs where d: "d = x # xs" by (cases d) auto
  from assms(3) obtain y ys where r: "rev d = y # ys" by (cases "rev d") auto
  have x: "\<not> is_space_char x" using assms(4) d by simp
  have "y \<in> set d" using r by (metis list.set_intros(1) set_rev)
  then have y: "\<not> is_space_char y" using assms(4) by blast
  have "dropWhile is_space_char (a @ d @ b) = d @ b"
    using assms(1) x by (simp add: d dropWhile_append3)
  moreover have "dropWhile is_space_char (rev (d @ b)) = rev d"
    using assms(2) y by (simp add: r dropWhile_append3)
  ultimately show ?thesis by (simp add: strip_def)
qed

lemma remove_one_prefix:
  assumes old: "old \<noteq> []" and a: "hd old \<notin> set a" and b: "hd old \<notin> set b"
  shows "remove_all old (a @ old @ b) = a @ b"
proof -
  have "remove_all old (a @ old @ b) = a @ remove_all old (old @ b)"
    using old a by (rule remove_all_skip)
  also have "remove_all old (old @ b) = remove_all old b"
    using old by (rule remove_all_here)
  also have "remove_all old b = b"
    using old b by (rule remove_all_absent)
  finally show ?thesis .
qed

lemma remove_prefixes:
  assumes P: "P \<in> set ['''', ''TIC'', ''KIC'', ''EPIC'']"
    and a: "\<forall>c\<in>set a. c \<notin> set ''TKE''" and b: "\<forall>c\<in>set b. c \<notin> set ''TKE''"
  shows "remove_all ''EPIC'' (remove_all ''KIC'' (remove_all ''TIC'' (a @ P @ b))) = a @ b"
proof -
  have nT: "hd ''TIC'' \<notin> set a" "hd ''TIC'' \<notin> set b"
    and nK: "hd ''KIC'' \<notin> set a" "hd ''KIC'' \<notin> set b"
    and nE: "hd ''EPIC'' \<notin> set a" "hd ''EPIC'' \<notin> set b"
    using a b by fastforce+
  have ne: "''TIC'' \<noteq> []" "''KIC'' \<noteq> []" "''EPIC'' \<noteq> []" by simp_all
  have ab: "hd ''TIC'' \<notin> set (a @ b)" "hd ''KIC'' \<notin> set (a @ b)" "hd ''EPIC'' \<notin> set (a @ b)"
    using nT nK nE by simp_all
  note aT = remove_all_absent[OF ne(1) ab(1)]
    and aK = remove_all_absent[OF ne(2) ab(2)]
    and aE = remove_all_absent[OF ne(3) ab(3)]
  from P consider "P = []" | "P = ''TIC''" | "P = ''KIC''" | "P = ''EPIC''"
    by auto
  then show ?thesis
  proof cases
    case 1
    have "a @ P @ b = a @ b" by (simp only: 1 append_Nil)
    then show ?thesis by (simp only: aT aK aE)
  next
    case 2
    have "remove_all ''TIC'' (a @ P @ b) = a @ b"
      unfolding 2 using ne(1) nT by (rule remove_one_prefix)
    then show ?thesis by (simp only: aK aE)
  next
    case 3
    have "hd ''TIC'' \<notin> set (a @ P @ b)" using nT by (simp add: 3)
    from remove_all_absent[OF ne(1) this]
    have "remove_all ''TIC'' (a @ P @ b) = a @ P @ b" .
    moreover have "remove_all ''KIC'' (a @ P @ b) = a @ b"
      unfolding 3 using ne(2) nK by (rule remove_one_prefix)
    ultimately show ?thesis by (simp only: aE)
  next
    case 4
    have "hd ''TIC'' \<notin> set (a @ P @ b)" using nT by (simp add: 4)
    from remove_all_absent[OF ne(1) this]
    have t: "remove_all ''TIC'' (a @ P @ b) = a @ P @ b" .
    have "hd ''KIC'' \<notin> set (a @ P @ b)" using nK by (simp add: 4)
    from remove_all_absent[OF ne(2) this]
    have k: "remove_all ''KIC'' (a @ P @ b) = a @ P @ b" .
    have e: "remove_all ''EPIC'' (a @ P @ b) = a @ b"
      unfolding 4 using ne(3) nE by (rule remove_one_prefix)
    show ?thesis by (simp only: t k e)
  qed
qed

lemma step_up:
  assumes ws1: "set ws1 \<subseteq> set blanks" and ws2: "set ws2 \<subseteq> set blanks"
    and ws3: "set ws3 \<subseteq> set blanks" and d: "set d \<subseteq> set ascii_digits"
  shows "upper (ws1 @ p @ ws2 @ d @ ws3) = ws1 @ upper p @ ws2 @ d @ ws3"
proof -
  note b1 = blank_facts[OF ws1] and b2 = blank_facts[OF ws2] and b3 = blank_facts[OF ws3]
    and dg = digit_facts[OF d]
  have "upper (ws1 @ p @ ws2 @ d @ ws3) = upper ws1 @ upper p @ upper ws2 @ upper d @ upper ws3"
    by (simp only: upper_append)
  then show ?thesis
    by (simp only: b1(1) b2(1) b3(1) dg(1))
qed

lemma step_r:
  assumes ws2: "set ws2 \<subseteq> set blanks"
    and ws3: "set ws3 \<subseteq> set blanks" and d: "set d \<subseteq> set ascii_digits"
  shows "\<forall>c\<in>set (ws2 @ d @ ws3). c \<notin> set ''TKE''"
proof
  fix c assume "c \<in> set (ws2 @ d @ ws3)"
  then consider "c \<in> set ws2" | "c \<in> set d" | "c \<in> set ws3"
    by (simp only: set_append Un_iff) blast
  then show "c \<notin> set ''TKE''"
  proof cases
    case 1
    with blank_facts(3)[OF ws2] show ?thesis by (rule bspec)
  next
    case 2
    with digit_facts(4)[OF d] show ?thesis by (rule bspec)
  next
    case 3
    with blank_facts(3)[OF ws3] show ?thesis by (rule bspec)
  qed
qed

lemma step_P:
  assumes p: "p \<in> set prefix_spellings"
  shows "upper p \<in> set ['''', ''TIC'', ''KIC'', ''EPIC'']"
proof -
  from spellings_table have "\<forall>q\<in>set prefix_spellings. upper q \<in> set ['''', ''TIC'', ''KIC'', ''EPIC'']"
    by (simp only: list_all_iff)
  then show ?thesis using p by (rule bspec)
qed

lemma search_term_prefixed_id:
  assumes ws1: "set ws1 \<subseteq> set blanks" and ws2: "set ws2 \<subseteq> set blanks"
    and ws3: "set ws3 \<subseteq> set blanks" and p: "p \<in> set prefix_spellings"
    and d0: "d \<noteq> []" and d: "set d \<subseteq> set ascii_digits"
  shows "search_term (ws1 @ p @ ws2 @ d @ ws3) = d \<and> isdigit d"
proof -
  note b1 = blank_facts[OF ws1] and b2 = blank_facts[OF ws2] and b3 = blank_facts[OF ws3]
    and dg = digit_facts[OF d]
  note up = step_up[OF ws1 ws2 ws3 d, of p]
  note r = step_r[OF ws2 ws3 d]
  note P = step_P[OF p]
  have "search_term (ws1 @ p @ ws2 @ d @ ws3) = strip (ws1 @ ws2 @ d @ ws3)"
    by (simp only: search_term_def up remove_prefixes[OF P b1(3) r])
  also have "ws1 @ ws2 @ d @ ws3 = (ws1 @ ws2) @ d @ ws3"
    by (simp only: append_assoc)
  also have "strip ((ws1 @ ws2) @ d @ ws3) = d"
  proof (rule strip_between)
    show "\<forall>c\<in>set (ws1 @ ws2). is_space_char c" using b1(2) b2(2) by (simp add: ball_Un)
    show "\<forall>c\<in>set ws3. is_space_char c" by (rule b3(2))
    show "d \<noteq> []" by (rule d0)
    show "\<forall>c\<in>set d. \<not> is_space_char c" by (rule dg(2))
  qed
  finally have "search_term (ws1 @ p @ ws2 @ d @ ws3) = d" .
  moreover have "isdigit d" using d0 dg(3) by (simp add: isdigit_def list_all_iff)
  ultimately show ?thesis by (rule conjI)
qed

lemma id_search_examples:
  "search_term ''tic 261136679'' = ''261136679''"
  "search_term ''  Epic201912552 '' = ''201912552''"
  "search_term (''TIC'' @ [CHR 0xA0] @ ''261136679'') = ''261136679''"
  "isdigit ''261136679''" "isdigit ''201912552''"
  by code_simp+

lemma search_tab_id_branch:
  assumes "isdigit (search_term star_id_input)"
  shows "search_tab search_lightcurve star_id_input selected_missions selected_authors =
     (case search_lightcurve star_id_input None of
        Inl e \<Rightarrow>
          ([Info ''Numerical ID detected. Searching all available missions and authors...'',
            SearchLightcurve star_id_input None], Inl e)
      | Inr r \<Rightarrow>
          if r = [] then
            ([Info ''Numerical ID detected. Searching all available missions and authors...'',
              SearchLightcurve star_id_input None,
              Warning ''No data found for the given criteria.''], Inr None)
          else
            ([Info ''Numerical ID detected. Searching all available missions and authors...'',
              SearchLightcurve star_id_input None], Inr (Some r)))"
  using assms isdigit_search_term_nonempty[OF assms]
  by (cases "search_lightcurve star_id_input None") (simp_all add: search_tab_def)

text \<open>
  C4. When the search term of the input (the input in upper case, with every "TIC", "KIC"
  and "EPIC" taken out and the white space at both ends stripped) is made of digits, in
  the sense of \<open>str.isdigit\<close>, the resolver announces a numerical ID and searches the
  archive for the input with no mission and no author filter. The right-hand side does
  not mention the selected missions and authors: the outcome is the same for every
  selection, the empty ones included. The second part says which inputs these are at
  least: blanks, a catalog prefix in one of the usual spellings or none, blanks, a
  non-empty run of the digits 0 to 9, blanks; the search term of such an input is the run
  of digits.
\<close>

theorem search_tab_numeric_id:
  "(isdigit (search_term star_id_input) \<longrightarrow>
      search_tab search_lightcurve star_id_input selected_missions selected_authors =
        (case search_lightcurve star_id_input None of
           Inl e \<Rightarrow>
             ([Info ''Numerical ID detected. Searching all available missions and authors...'',
               SearchLightcurve star_id_input None], Inl e)
         | Inr r \<Rightarrow>
             if r = [] then
               ([Info ''Numerical ID detected. Searching all available missions and authors...'',
                 SearchLightcurve star_id_input None,
                 Warning ''No data found for the given criteria.''], Inr None)
             else
               ([Info ''Numerical ID detected. Searching all available missions and authors...'',
                 SearchLightcurve star_id_input None], Inr (Some r)))) \<and>
   (set lead \<subseteq> set blanks \<and> set mid \<subseteq> set blanks \<and> set trail \<subseteq> set blanks \<and>
    p \<in> set prefix_spellings \<and> d \<noteq> [] \<and> set d \<subseteq> set ascii_digits \<longrightarrow>
      search_term (lead @ p @ mid @ d @ trail) = d \<and>
      isdigit (search_term (lead @ p @ mid @ d @ trail)))"
proof (intro conjI impI)
  assume "isdigit (search_term star_id_input)"
  then show "search_tab search_lightcurve star_id_input selected_missions selected_authors =
        (case search_lightcurve star_id_input None of
           Inl e \<Rightarrow>
             ([Info ''Numerical ID detected. Searching all available missions and authors...'',
               SearchLightcurve star_id_input None], Inl e)
         | Inr r \<Rightarrow>
             if r = [] then
               ([Info ''Numerical ID detected. Searching all available missions and authors...'',
                 SearchLightcurve star_id_input None,
                 Warning ''No data found for the given criteria.''], Inr None)
             else
               ([Info ''Numerical ID detected. Searching all available missions and authors...'',
                 SearchLightcurve star_id_input None], Inr (Some r)))"
    by (rule search_tab_id_branch)
next
  assume a: "set lead \<subseteq> set blanks \<and> set mid \<subseteq> set blanks \<and> set trail \<subseteq> set blanks \<and>
    p \<in> set prefix_spellings \<and> d \<noteq> [] \<and> set d \<subseteq> set ascii_digits"
  then have s: "search_term (lead @ p @ mid @ d @ trail) = d \<and> isdigit d"
    by (intro search_term_prefixed_id) simp_all
  then show "search_term (lead @ p @ mid @ d @ trail) = d" by (rule conjunct1)
  from s show "isdigit (search_term (lead @ p @ mid @ d @ trail))" by (simp only:)
qed

theorem search_tab_numeric_id_witness:
  "isdigit (search_term ''tic 261136679'') \<and>
   search_tab archive ''tic 261136679'' [] [] =
     ([Info ''Numerical ID detected. Searching all available missions and authors...'',
       SearchLightcurve ''tic 261136679'' None], Inr (Some [0, 1])) \<and>
   search_term (''  '' @ ''Epic'' @ [] @ ''201912552'' @ '' '') = ''201912552'' \<and>
   isdigit (search_term (''  '' @ ''Epic'' @ [] @ ''201912552'' @ '' ''))"
proof -
  have d: "isdigit (search_term ''tic 261136679'')"
    by (simp only: id_search_examples)
  have h: "set ''  '' \<subseteq> set blanks \<and> set ([]::string) \<subseteq> set blanks \<and> set '' '' \<subseteq> set blanks \<and>
    ''Epic'' \<in> set prefix_spellings \<and> ''201912552'' \<noteq> [] \<and>
    set ''201912552'' \<subseteq> set ascii_digits"
    by (simp add: blanks_def prefix_spellings_def ascii_digits_def)
  note t1 = search_tab_numeric_id[where star_id_input = "''tic 261136679''" and
      search_lightcurve = archive and selected_missions = "[]" and selected_authors = "[]",
      THEN conjunct1, THEN mp, OF d]
  note t2 = search_tab_numeric_id[where lead = "''  ''" and p = "''Epic''" and mid = "[]" and
      d = "''201912552''" and trail = "'' ''", THEN conjunct2, THEN mp, OF h]
  have o: "search_tab archive ''tic 261136679'' [] [] =
     ([Info ''Numerical ID detected. Searching all available missions and authors...'',
       SearchLightcurve ''tic 261136679'' None], Inr (Some [0, 1]))"
    using t1 by (simp add: archive_def)
  from t2 have t2a: "search_term (''  '' @ ''Epic'' @ [] @ ''201912552'' @ '' '') = ''201912552''"
    by (rule conjunct1)
  from t2 have t2b: "isdigit (search_term (''  '' @ ''Epic'' @ [] @ ''201912552'' @ '' ''))"
    by (rule conjunct2)
  show ?thesis by (rule conjI[OF d conjI[OF o conjI[OF t2a t2b]]])
qed

lemma not_isdigit_example: "\<not> isdigit (search_term ''Kepler-10'')"
  by code_simp

text \<open>
  C5. An empty input gives the warning "Please enter a star name." and nothing else; a
  name search (the search term is not made of digits) with no mission or no author
  selected gives a warning in the sidebar and the "No data found" warning. In both cases
  the archive is not searched: the effects hold no search event.
\<close>

theorem search_tab_input_error:
  "(star_id_input = [] \<longrightarrow>
      search_tab search_lightcurve star_id_input selected_missions selected_authors =
        ([Warning ''Please enter a star name.''], Inr None)) \<and>
   (star_id_input \<noteq> [] \<and> \<not> isdigit (search_term star_id_input) \<and>
    (selected_missions = [] \<or> selected_authors = []) \<longrightarrow>
      search_tab search_lightcurve star_id_input selected_missions selected_authors =
        ([SidebarWarning ''Please select at least one mission and author for name searches.'',
          Warning ''No data found for the given criteria.''], Inr None))"
  by (auto simp: search_tab_def)

theorem search_tab_input_error_witness:
  "search_tab archive [] [''TESS''] [''SPOC''] = ([Warning ''Please enter a star name.''], Inr None) \<and>
   \<not> isdigit (search_term ''Kepler-10'') \<and>
   search_tab archive ''Kepler-10'' [] [''SPOC''] =
     ([SidebarWarning ''Please select at least one mission and author for name searches.'',
       Warning ''No data found for the given criteria.''], Inr None)"
proof -
  have n: "''Kepler-10'' \<noteq> [] \<and> \<not> isdigit (search_term ''Kepler-10'') \<and>
           (([]::string list) = [] \<or> [''SPOC''] = [])"
    by (simp add: not_isdigit_example)
  from search_tab_input_error[of "[]" archive "[''TESS'']" "[''SPOC'']"]
    search_tab_input_error[of "''Kepler-10''" archive "[]" "[''SPOC'']"] n
  show ?thesis by blast
qed

section \<open>Properties of the pipeline\<close>

lemma fst_seq: "fst (seq m f) = fst m @ (case snd m of Inl e \<Rightarrow> [] | Inr a \<Rightarrow> fst (f a))"
  by (cases m) (auto simp: seq_def split: sum.splits prod.splits)

lemma download_step_skip:
  assumes "item = Inr None \<or> (\<exists>lc. item = Inr (Some lc) \<and> remove_nans lc = [])"
  shows "download_step lib total_files i item = (skipped_round total_files i, Inr None)"
  using assms by (auto simp: download_step_def seq_def emit_def call_def skipped_round_def)

lemma download_loop_skip:
  assumes "\<forall>item\<in>set items. item = Inr None \<or> (\<exists>lc. item = Inr (Some lc) \<and> remove_nans lc = [])"
  shows "download_loop lib total_files i processed items =
           (concat (map (skipped_round total_files) [i..<i + length items]), Inr processed)"
  using assms
proof (induction items arbitrary: i processed)
  case Nil
  then show ?case by simp
next
  case (Cons item items)
  have step: "download_step lib total_files i item = (skipped_round total_files i, Inr None)"
    using Cons.prems by (intro download_step_skip) simp
  have rest: "download_loop lib total_files (i + 1) processed items =
           (concat (map (skipped_round total_files) [i + 1..<i + 1 + length items]), Inr processed)"
    using Cons.prems by (intro Cons.IH) simp
  have "[i..<i + length (item # items)] = i # [i + 1..<i + 1 + length items]"
    by (simp add: upt_rec)
  with step rest show ?case by simp
qed

lemma shown_results_skipped:
  "shown_results (concat (map (skipped_round total_files) js)) = []"
  by (induction js) (simp_all add: shown_results_def skipped_round_def)

text \<open>
  C3. When every selected item downloads as \<open>None\<close> or as a light curve without a
  single cadence of valid flux, the run is: the start notice, one skipped round for each
  item, then the error "Could not process any of the selected light curve data." and
  the emptying of the two placeholders. It shows no figure and no period, and the
  stitching stage is not entered.
\<close>

theorem process_selected_data_nothing_valid:
  assumes "\<forall>item\<in>set selected_items.
             item = Inr None \<or> (\<exists>lc. item = Inr (Some lc) \<and> remove_nans lc = [])"
  shows "process_selected_data lib selected_items =
           [StatusInfo (Starting (length selected_items)), ProgressSet 0 1] @
           concat (map (skipped_round (length selected_items)) [0..<length selected_items]) @
           [Error ''Could not process any of the selected light curve data.'',
            StatusEmpty, ProgressEmpty] \<and>
         shown_results (process_selected_data lib selected_items) = [] \<and>
         StatusInfo Stitching \<notin> set (process_selected_data lib selected_items)"
proof -
  have loop: "download_loop lib (length selected_items) 0 [] selected_items =
      (concat (map (skipped_round (length selected_items)) [0..<length selected_items]), Inr [])"
    using download_loop_skip[OF assms, of lib "length selected_items" 0 "[]"] by simp
  have tr: "process_selected_data lib selected_items =
           [StatusInfo (Starting (length selected_items)), ProgressSet 0 1] @
           concat (map (skipped_round (length selected_items)) [0..<length selected_items]) @
           [Error ''Could not process any of the selected light curve data.'',
            StatusEmpty, ProgressEmpty]"
    by (simp add: process_selected_data_def process_selected_data_try_def Let_def seq_def
          emit_def loop)
  have res: "shown_results (process_selected_data lib selected_items) = []"
    unfolding tr using shown_results_skipped[of "length selected_items"]
    by (simp add: shown_results_def)
  have "StatusInfo Stitching \<notin> set (process_selected_data lib selected_items)"
    unfolding tr by (auto simp: skipped_round_def)
  with tr res show ?thesis by blast
qed

lemma remove_nans_nan_cadence: "remove_nans [nan_cadence] = []"
  by (simp add: remove_nans_def nan_cadence_def)

theorem process_selected_data_nothing_valid_witness:
  "process_selected_data periodogram_fails no_valid_data =
     [StatusInfo (Starting 2), ProgressSet 0 1,
      StatusInfo (Downloading 1 2), Download 0,
      Write ''Skipping empty or invalid data for file 1.'', ProgressSet 1 2,
      StatusInfo (Downloading 2 2), Download 1,
      Write ''Skipping empty or invalid data for file 2.'', ProgressSet 2 2,
      Error ''Could not process any of the selected light curve data.'',
      StatusEmpty, ProgressEmpty] \<and>
   shown_results (process_selected_data periodogram_fails no_valid_data) = []"
proof -
  have h: "\<forall>item\<in>set no_valid_data.
             item = Inr None \<or> (\<exists>lc. item = Inr (Some lc) \<and> remove_nans lc = [])"
    by (simp add: no_valid_data_def remove_nans_nan_cadence)
  have n: "length no_valid_data = 2" by (simp add: no_valid_data_def)
  have u: "[0..<2] = [0, Suc 0]" by (simp add: upt_rec)
  from process_selected_data_nothing_valid[OF h, of periodogram_fails] show ?thesis
    by (simp add: n u skipped_round_def skip_notice_def str_nat_def digit_char_def
          shown_results_def)
qed

lemma download_step_no_error: "Error m \<notin> set (fst (download_step lib total_files i item))"
  by (auto simp: download_step_def fst_seq emit_def call_def split: sum.splits option.splits)

lemma download_loop_no_error:
  "Error m \<notin> set (fst (download_loop lib total_files i processed items))"
proof (induction items arbitrary: i processed)
  case Nil
  then show ?case by simp
next
  case (Cons item items)
  obtain evs r where s: "download_step lib total_files i item = (evs, r)"
    by (cases "download_step lib total_files i item")
  with download_step_no_error[of m lib total_files i item] have e: "Error m \<notin> set evs"
    by simp
  show ?case
  proof (cases r)
    case (Inl x)
    with s e show ?thesis by simp
  next
    case (Inr kept)
    with s e Cons.IH[of "i + 1" "processed @ (case kept of None \<Rightarrow> [] | Some lc \<Rightarrow> [lc])"]
    show ?thesis by (auto split: prod.splits)
  qed
qed

lemma analyse_no_error: "Error m \<notin> set (fst (analyse lib processed))"
  by (simp add: analyse_def fst_seq emit_def call_def split: sum.splits)

lemma process_try_raises_no_error:
  assumes "process_selected_data_try lib selected_items = (evs, Inl e)"
  shows "Error m \<notin> set evs"
proof -
  define total where "total = length selected_items"
  obtain evl rl where l: "download_loop lib total 0 [] selected_items = (evl, rl)"
    by (cases "download_loop lib total 0 [] selected_items")
  with download_loop_no_error[of m lib total 0 "[]" selected_items]
  have el: "Error m \<notin> set evl" by simp
  show ?thesis
  proof (cases rl)
    case (Inl x)
    with assms l el show ?thesis
      by (auto simp: process_selected_data_try_def Let_def seq_def emit_def total_def[symmetric])
  next
    case (Inr processed)
    show ?thesis
    proof (cases "processed = []")
      case True
      with assms l Inr show ?thesis
        by (auto simp: process_selected_data_try_def Let_def seq_def emit_def
              total_def[symmetric])
    next
      case False
      obtain eva ra where a: "analyse lib processed = (eva, ra)"
        by (cases "analyse lib processed")
      with analyse_no_error[of m lib processed] have "Error m \<notin> set eva" by simp
      with assms l Inr False a el show ?thesis
        by (auto simp: process_selected_data_try_def Let_def seq_def emit_def
              total_def[symmetric])
    qed
  qed
qed

text \<open>
  C7 (amended). When a stage of the pipeline raises, the handler shows one error message
  with the text of the exception, after which the status and the progress placeholders
  are emptied, and the function returns; the body has shown no other error message. The
  figures and the period that the stages before the failure have put on the page stay
  there: the handler removes none of them.
\<close>

theorem process_selected_data_exception_handled:
  assumes "process_selected_data_try lib selected_items = (evs, Inl e)"
  shows "process_selected_data lib selected_items =
           evs @ [Error (''An error occurred during analysis: '' @ str_exn e),
                  StatusEmpty, ProgressEmpty] \<and>
         (\<forall>m. Error m \<notin> set evs) \<and>
         shown_results (process_selected_data lib selected_items) = shown_results evs"
proof -
  have t: "process_selected_data lib selected_items =
           evs @ [Error (''An error occurred during analysis: '' @ str_exn e),
                  StatusEmpty, ProgressEmpty]"
    using assms by (simp add: process_selected_data_def)
  moreover have "\<forall>m. Error m \<notin> set evs"
    using process_try_raises_no_error[OF assms] by blast
  moreover have "shown_results (process_selected_data lib selected_items) = shown_results evs"
    unfolding t by (simp add: shown_results_def)
  ultimately show ?thesis by blast
qed

lemma process_try_periodogram_fails:
  "process_selected_data_try periodogram_fails one_segment = (search_failed_events, Inl bls_error)"
  by (simp add: process_selected_data_try_def one_segment_def periodogram_fails_def
        download_step_def analyse_def stitched_series_def vstack_normalized_def
        normalize_flux_def same_flux_def remove_nans_def day1_def day2_def
        seq_def emit_def call_def search_failed_events_def Let_def)

text \<open>
  C7 as stated fails in its last part: when the periodogram raises, the figure of the
  cleaned light curve, drawn by the stage before, is among the effects of the run.
\<close>

theorem process_selected_data_keeps_cleaned_plot:
  "process_selected_data_try periodogram_fails one_segment =
     (search_failed_events, Inl bls_error) \<and>
   shown_results (process_selected_data periodogram_fails one_segment) = [Pyplot CleanedPlot]"
  by (simp add: process_try_periodogram_fails process_selected_data_def shown_results_def
        search_failed_events_def)

theorem process_selected_data_exception_handled_witness:
  "process_selected_data periodogram_fails one_segment =
     search_failed_events @
     [Error (''An error occurred during analysis: '' @ str_exn bls_error),
      StatusEmpty, ProgressEmpty] \<and>
   Error ''Could not process any of the selected light curve data.'' \<notin> set search_failed_events"
  using process_selected_data_exception_handled[OF process_try_periodogram_fails]
  by blast

lemma time_normalize_flux: "map time (normalize_flux scale lc) = map time lc"
  by (simp add: normalize_flux_def comp_def)

lemma time_concat_normalized:
  "map time (concat (map (normalize_flux scale) lcs)) = map time (concat lcs)"
  by (induction lcs) (simp_all add: time_normalize_flux)

lemma sorted_map_filter: "sorted (map f xs) \<Longrightarrow> sorted (map f (filter P xs))"
  by (induction xs) auto

lemma subseq_map_filter: "subseq (map f (filter P xs)) (map f xs)"
  by (induction xs) auto

text \<open>
  C8 (amended). With the library's \<open>stitch\<close>, the stitched series has no cadence with a
  NaN flux, and its times are times of the segments in the order in which the segments
  and their cadences were given; so they are in non-decreasing order whenever the times
  of the retained segments, read in that order, are.
\<close>

theorem stitched_series_no_nans_in_given_order:
  "\<exists>lc. stitched_series (vstack_normalized scale) segments = Inr lc \<and>
        (\<forall>c\<in>set lc. flux c \<noteq> None) \<and>
        subseq (map time lc) (map time (concat segments)) \<and>
        (sorted (map time (concat segments)) \<longrightarrow> sorted (map time lc))"
proof -
  define st where "st = concat (map (normalize_flux scale) segments)"
  have r: "stitched_series (vstack_normalized scale) segments = Inr (remove_nans st)"
    by (simp add: stitched_series_def vstack_normalized_def st_def)
  have t: "map time st = map time (concat segments)"
    unfolding st_def by (rule time_concat_normalized)
  have "\<forall>c\<in>set (remove_nans st). flux c \<noteq> None"
    by (simp add: remove_nans_def)
  moreover have "subseq (map time (remove_nans st)) (map time (concat segments))"
    unfolding t[symmetric] remove_nans_def by (rule subseq_map_filter)
  moreover have "sorted (map time (concat segments)) \<longrightarrow> sorted (map time (remove_nans st))"
    unfolding t[symmetric] remove_nans_def by (simp add: sorted_map_filter)
  ultimately show ?thesis using r by blast
qed

lemma stitched_in_time_order:
  "stitched_series (vstack_normalized same_flux) in_time_order = Inr [day1, day2, day3]"
  by (simp add: stitched_series_def vstack_normalized_def normalize_flux_def same_flux_def
        remove_nans_def in_time_order_def day1_def day2_def day3_def nan_cadence_def)

theorem stitched_series_no_nans_in_given_order_witness:
  "stitched_series (vstack_normalized same_flux) in_time_order = Inr [day1, day2, day3] \<and>
   flux day2 \<noteq> None \<and>
   sorted (map time (concat in_time_order)) \<and>
   sorted (map time [day1, day2, day3])"
proof -
  have s: "sorted (map time (concat in_time_order))"
    by (simp add: in_time_order_def day1_def day2_def day3_def nan_cadence_def)
  from stitched_series_no_nans_in_given_order[of same_flux in_time_order] s
  show ?thesis by (auto simp: stitched_in_time_order)
qed

text \<open>
  C8 as stated fails: nothing in the stage sorts. Two valid segments given with the later
  one first are stitched into a series whose times go down.
\<close>

theorem stitched_series_later_first_unsorted:
  "stitched_series (vstack_normalized same_flux) later_first = Inr [day2, day3, day1] \<and>
   \<not> sorted (map time [day2, day3, day1])"
  by (simp add: stitched_series_def vstack_normalized_def normalize_flux_def same_flux_def
        remove_nans_def later_first_def day1_def day2_def day3_def)

lemma phase_shift:
  assumes "period \<noteq> 0"
  shows "phase period epoch_time (t + of_int k * period) = phase period epoch_time t"
proof -
  have "(t + of_int k * period - epoch_time) / period = (t - epoch_time) / period + of_int k"
    using assms by (simp add: field_simps)
  then have "\<lfloor>(t + of_int k * period - epoch_time) / period\<rfloor> = \<lfloor>(t - epoch_time) / period\<rfloor> + k"
    by simp
  then show ?thesis by (simp add: phase_def algebra_simps)
qed

lemma time_fold_series:
  "i < length lc \<Longrightarrow> time (fold_series period epoch_time lc ! i) = phase period epoch_time (time (lc ! i))"
  by (simp add: fold_series_def)

text \<open>
  C9. Folding is periodic: when the period is not zero and the times of two cadences of
  the cleaned series differ by a whole multiple of the period, the fold gives both the
  same phase. Over the real numbers the two phases are equal; the floating-point
  tolerance of the claim is the rounding of the program's arithmetic, which the model
  does not have.
\<close>

theorem fold_series_periodic:
  assumes "period \<noteq> 0" and "i < length lc" and "j < length lc"
    and "time (lc ! j) = time (lc ! i) + of_int k * period"
  shows "time (fold_series period epoch_time lc ! j) = time (fold_series period epoch_time lc ! i)"
  using assms by (simp add: time_fold_series phase_shift)

theorem fold_series_periodic_witness:
  "(2::real) \<noteq> 0 \<and> 0 < length three_days \<and> 2 < length three_days \<and>
   time (three_days ! 2) = time (three_days ! 0) + of_int 1 * 2 \<and>
   time (fold_series 2 0 three_days ! 2) = time (fold_series 2 0 three_days ! 0)"
proof -
  have p: "(2::real) \<noteq> 0" by simp
  have i: "0 < length three_days" and j: "2 < length three_days"
    by (simp_all add: three_days_def)
  have t: "time (three_days ! 2) = time (three_days ! 0) + of_int 1 * 2"
    by (simp add: three_days_def day1_def day3_def)
  from fold_series_periodic[OF p i j t, of 0] p i j t show ?thesis
    by (intro conjI)
qed

end
